theory Spec2Isabelle
  imports Complex_Main "HOL-Library.Word" "HOL-Library.Product_Lexorder" "HOL-Library.AList"
begin

unbundle bit_operations_syntax

section \<open>Numbers\<close>

text \<open>
  JavaScript numbers are modelled as exact rationals: every sum, product and quotient is
  the mathematical one, so the rounding of IEEE doubles, \<open>NaN\<close> and the infinities are
  outside the model. A field that is absent from an object is \<open>None\<close>.
\<close>

type_synonym num = rat

text \<open>\<open>Math.sign\<close> is \<^const>\<open>sgn\<close>, \<open>Math.abs\<close> is \<^const>\<open>abs\<close>.\<close>

section \<open>Margin model (execution/margin\_model.js)\<close>

record position =
  qty :: num
  avgPrice :: num

text \<open>
  \<open>markPrice\<close> is \<open>None\<close> when the caller passes a value that is not a finite number
  (\<open>null\<close>, \<open>undefined\<close>): \<open>Number.isFinite\<close> then fails and the average price is used.
\<close>

definition calculateUnrealizedPnl :: "'a position_scheme \<Rightarrow> num option \<Rightarrow> num" where
  "calculateUnrealizedPnl p markPrice =
     (let q = qty p;
          avg = avgPrice p;
          safeMark = (case markPrice of Some m \<Rightarrow> m | None \<Rightarrow> avg)
      in q * (safeMark - avg))"

record marginSnapshot =
  ms_markPrice :: num
  positionNotional :: num
  initialMargin :: num
  ms_maintenanceMargin :: num
  ms_unrealizedPnl :: num

definition calculateMarginSnapshot ::
  "'a position_scheme \<Rightarrow> num option \<Rightarrow> num \<Rightarrow> num \<Rightarrow> marginSnapshot" where
  "calculateMarginSnapshot p markPrice initialMarginRate maintenanceMarginRate =
     (let q = qty p;
          absQty = \<bar>q\<bar>;
          avg = avgPrice p;
          safeMark = (case markPrice of Some m \<Rightarrow> m | None \<Rightarrow> avg);
          notional = absQty * \<bar>safeMark\<bar>
      in \<lparr> ms_markPrice = safeMark,
           positionNotional = notional,
           initialMargin = notional * max 0 initialMarginRate,
           ms_maintenanceMargin = notional * max 0 maintenanceMarginRate,
           ms_unrealizedPnl = calculateUnrealizedPnl p (Some safeMark) \<rparr>)"

section \<open>Position ledger (execution/fill\_model.js)\<close>

record PositionLedger = position +
  realizedPnl :: num

definition new_PositionLedger :: PositionLedger where
  "new_PositionLedger = \<lparr> qty = 0, avgPrice = 0, realizedPnl = 0 \<rparr>"

text \<open>
  \<open>applyFill\<close> mutates the ledger and returns the realized delta: the model returns the
  pair of the delta and the new ledger. The side is the source's string; every side other
  than \<open>buy\<close> sells.
\<close>

definition applyFill ::
  "PositionLedger \<Rightarrow> string \<Rightarrow> num \<Rightarrow> num \<Rightarrow> num \<Rightarrow> num \<times> PositionLedger" where
  "applyFill l side q price fee =
     (let signedQty = (if side = ''buy'' then \<bar>q\<bar> else - \<bar>q\<bar>);
          prevQty = qty l;
          prevAvg = avgPrice l;
          realizedDelta = - fee
      in if prevQty = 0 \<or> sgn prevQty = sgn signedQty then
           (let newQty = prevQty + signedQty;
                weighted = \<bar>prevQty\<bar> * prevAvg + \<bar>signedQty\<bar> * price
            in (realizedDelta,
                l\<lparr> qty := newQty,
                   avgPrice := (if newQty = 0 then 0 else weighted / \<bar>newQty\<bar>),
                   realizedPnl := realizedPnl l + realizedDelta \<rparr>))
         else
           (let closingQty = min \<bar>prevQty\<bar> \<bar>signedQty\<bar>;
                realizedDelta' =
                  (if prevQty > 0 then realizedDelta + (price - prevAvg) * closingQty
                   else realizedDelta + (prevAvg - price) * closingQty);
                remaining = prevQty + signedQty
            in (realizedDelta',
                l\<lparr> qty := remaining,
                   avgPrice := (if remaining = 0 then 0
                                else if sgn remaining = sgn prevQty then prevAvg
                                else price),
                   realizedPnl := realizedPnl l + realizedDelta' \<rparr>)))"

section \<open>Fill model (execution/fill\_model.js)\<close>

subsection \<open>Rounding, book sides, slippage\<close>

definition EPSILON :: num where
  "EPSILON = 1 / 2 ^ 52"

text \<open>
  \<open>Math.round\<close> rounds to the nearest integer, halves upwards: \<open>\<lfloor>x + 1/2\<rfloor>\<close>. The step is
  \<open>None\<close> when the option was not given (\<open>Number.isFinite\<close> fails).
\<close>

definition roundToStep :: "num \<Rightarrow> num option \<Rightarrow> num" where
  "roundToStep v step =
     (case step of
        None \<Rightarrow> v
      | Some s \<Rightarrow> if s \<le> 0 then v else of_int \<lfloor>v / s + EPSILON + 1 / 2\<rfloor> * s)"

definition roundToTick :: "num \<Rightarrow> num option \<Rightarrow> num" where
  "roundToTick price tick = roundToStep price tick"

definition roundToLot :: "num \<Rightarrow> num option \<Rightarrow> num" where
  "roundToLot q step = roundToStep q step"

record level =
  lv_price :: num
  lv_qty :: num

text \<open>A side that is not an array is the empty list. JavaScript's sort is stable.\<close>

definition normalizeBookSide :: "level list \<Rightarrow> level list" where
  "normalizeBookSide levels = sort_key lv_price (filter (\<lambda>l. lv_qty l > 0) levels)"

record book =
  asks :: "level list"
  bids :: "level list"

text \<open>
  A slippage model is the source's object with a \<open>type\<close> field; \<open>other_model\<close> is an
  object whose type is missing or not one of the three. A parameter that is absent reads
  as 0 (\<open>Number(x) || 0\<close>), so the parameters are plain numbers.
\<close>

datatype slippageModel =
    simple_fixed num
  | pct_of_spread num
  | liquidity_based num num
  | other_model

definition slippageImpact :: "slippageModel \<Rightarrow> string \<Rightarrow> num \<Rightarrow> num \<Rightarrow> num \<Rightarrow> num" where
  "slippageImpact model side spread q avgVolume =
     (let direction = (if side = ''buy'' then 1 else - 1)
      in case model of
           simple_fixed fixed \<Rightarrow> direction * fixed
         | pct_of_spread pct \<Rightarrow> direction * spread * pct
         | liquidity_based base k \<Rightarrow>
             (let denom = (if avgVolume > 0 then avgVolume else 1)
              in direction * (base + k * (\<bar>q\<bar> / denom)))
         | other_model \<Rightarrow> 0)"

subsection \<open>The model's state\<close>

record fill =
  f_orderId :: string
  f_timestamp :: num
  f_side :: string
  f_qty :: num
  f_price :: num
  executedNotional :: num
  fee :: num
  feeRate :: num
  liquidity :: string
  realizedPnlDelta :: num

record order =
  o_orderId :: string
  o_side :: string
  o_qty :: num
  remainingQty :: num
  o_price :: num
  mode :: string
  status :: string
  createdAt :: num
  activeAt :: num
  expiresAt :: "num option"
  cancelRequestedAt :: "num option"
  cancelEffectiveAt :: "num option"
  o_fills :: "fill list"

text \<open>
  \<open>orders\<close> is the source's \<open>Map\<close>, kept as an association list in insertion order
  (the order in which \<open>Map.values()\<close> iterates); \<open>next_id\<close> is the counter \<open>_id\<close>.
\<close>

record FillModel =
  tickSize :: "num option"
  stepSize :: "num option"
  minNotional :: "num option"
  minQty :: "num option"
  maxQty :: "num option"
  fee_maker :: num
  fee_taker :: num
  defaultSlippageModel :: slippageModel
  defaultCancelLatencyMs :: num
  orderLatencyMs :: num
  orders :: "(string \<times> order) list"
  next_id :: nat
  ledger :: PositionLedger

record FillModelOptions =
  opt_tickSize :: "num option"
  opt_stepSize :: "num option"
  opt_minNotional :: "num option"
  opt_minQty :: "num option"
  opt_maxQty :: "num option"
  opt_makerFeeRate :: "num option"
  opt_takerFeeRate :: "num option"
  opt_slippageModel :: "slippageModel option"
  opt_cancelLatencyMs :: "num option"
  opt_orderLatencyMs :: "num option"

definition orElse :: "'a option \<Rightarrow> 'a \<Rightarrow> 'a" where
  "orElse x d = (case x of Some v \<Rightarrow> v | None \<Rightarrow> d)"

definition new_FillModel :: "FillModelOptions \<Rightarrow> FillModel" where
  "new_FillModel options =
     \<lparr> tickSize = opt_tickSize options,
       stepSize = opt_stepSize options,
       minNotional = opt_minNotional options,
       minQty = opt_minQty options,
       maxQty = opt_maxQty options,
       fee_maker = orElse (opt_makerFeeRate options) 0,
       fee_taker = orElse (opt_takerFeeRate options) 0,
       defaultSlippageModel = orElse (opt_slippageModel options) (simple_fixed 0),
       defaultCancelLatencyMs = orElse (opt_cancelLatencyMs options) 0,
       orderLatencyMs = orElse (opt_orderLatencyMs options) 0,
       orders = [],
       next_id = 1,
       ledger = new_PositionLedger \<rparr>"

subsection \<open>Validation\<close>

text \<open>
  \<open>_buildReject(reason, details)\<close> is \<open>Rejected reason qty notional\<close>, the two details
  present or not as the source passes them.
\<close>

datatype validation =
    Rejected string "num option" "num option"
  | Ok num

definition validateOrder :: "FillModel \<Rightarrow> num \<Rightarrow> num option \<Rightarrow> validation" where
  "validateOrder fm q priceHint =
     (let roundedQty = roundToLot q (stepSize fm)
      in if roundedQty \<le> 0 then Rejected ''invalid_qty'' None None
         else if (case minQty fm of Some m \<Rightarrow> roundedQty < m | None \<Rightarrow> False)
           then Rejected ''min_qty_violation'' (Some roundedQty) None
         else if (case maxQty fm of Some m \<Rightarrow> roundedQty > m | None \<Rightarrow> False)
           then Rejected ''max_qty_violation'' (Some roundedQty) None
         else
           (case (priceHint, minNotional fm) of
              (Some p, Some mn) \<Rightarrow>
                (let notional = roundedQty * p
                 in if notional < mn
                    then Rejected ''min_notional_violation'' (Some roundedQty) (Some notional)
                    else Ok roundedQty)
            | _ \<Rightarrow> Ok roundedQty))"

subsection \<open>Consuming the book\<close>

text \<open>
  The body of the loop of \<open>_bookFill\<close> over the levels: the ledger (inside the model),
  the remaining quantity and the fills made so far are threaded through.
\<close>

fun bookFill_levels ::
  "string \<Rightarrow> num option \<Rightarrow> num \<Rightarrow> string \<Rightarrow> bool \<Rightarrow> level list \<Rightarrow>
   FillModel \<times> num \<times> fill list \<Rightarrow> FillModel \<times> num \<times> fill list" where
  "bookFill_levels side limitPrice ts oid forceTaker [] acc = acc"
| "bookFill_levels side limitPrice ts oid forceTaker (lv # rest) (fm, remaining, fills) =
     (let priceMatch =
            (if side = ''buy''
             then (case limitPrice of None \<Rightarrow> True | Some lp \<Rightarrow> lv_price lv \<le> lp)
             else (case limitPrice of None \<Rightarrow> True | Some lp \<Rightarrow> lv_price lv \<ge> lp))
      in if \<not> priceMatch \<or> remaining \<le> 0
         then bookFill_levels side limitPrice ts oid forceTaker rest (fm, remaining, fills)
         else
           (let executedQty = min remaining (lv_qty lv);
                executedPrice = roundToTick (lv_price lv) (tickSize fm);
                notional = executedQty * executedPrice;
                rate = (if forceTaker then fee_taker fm else fee_maker fm);
                fee_amount = notional * rate;
                (delta, l') = applyFill (ledger fm) side executedQty executedPrice fee_amount;
                new_fill = \<lparr> f_orderId = oid, f_timestamp = ts, f_side = side,
                             f_qty = executedQty, f_price = executedPrice,
                             executedNotional = notional, fee = fee_amount, feeRate = rate,
                             liquidity = (if forceTaker then ''taker'' else ''maker''),
                             realizedPnlDelta = delta \<rparr>
            in bookFill_levels side limitPrice ts oid forceTaker rest
                 (fm\<lparr>ledger := l'\<rparr>, remaining - executedQty, fills @ [new_fill])))"

text \<open>
  \<open>_bookFill\<close> returns \<open>{fills, remainingQty}\<close>; the model returns the updated model too.
  Bids are the ascending side sorted again, descending.
\<close>

definition bookFill ::
  "FillModel \<Rightarrow> string \<Rightarrow> num \<Rightarrow> book \<Rightarrow> num option \<Rightarrow> num \<Rightarrow> string \<Rightarrow> bool \<Rightarrow>
   FillModel \<times> fill list \<times> num" where
  "bookFill fm side q bk limitPrice ts oid forceTaker =
     (let levels = (if side = ''buy'' then normalizeBookSide (asks bk)
                    else sort_key (\<lambda>l. - lv_price l) (normalizeBookSide (bids bk)));
          (fm', remaining, fills) =
             bookFill_levels side limitPrice ts oid forceTaker levels (fm, q, [])
      in (fm', fills, remaining))"

text \<open>
  The market snapshot of a market order; an absent snapshot has every field absent.
\<close>

record market =
  mk_lastPrice :: "num option"
  mk_midPrice :: "num option"
  mk_price :: "num option"
  mk_spread :: "num option"
  mk_avgVolume :: "num option"

definition priceHint_of :: "market \<Rightarrow> num option" where
  "priceHint_of m =
     (case mk_lastPrice m of Some p \<Rightarrow> Some p
      | None \<Rightarrow> (case mk_midPrice m of Some p \<Rightarrow> Some p | None \<Rightarrow> mk_price m))"

definition booklessFill ::
  "FillModel \<Rightarrow> string \<Rightarrow> num \<Rightarrow> market \<Rightarrow> string \<Rightarrow> num \<Rightarrow> slippageModel option \<Rightarrow>
   FillModel \<times> fill list \<times> num" where
  "booklessFill fm side q m oid ts model =
     (case priceHint_of m of
        None \<Rightarrow> (fm, [], q)
      | Some refPrice \<Rightarrow>
          (let spread = orElse (mk_spread m) 0;
               avgVolume = orElse (mk_avgVolume m) q;
               slip = slippageImpact (orElse model (defaultSlippageModel fm)) side spread q avgVolume;
               executedPrice = roundToTick (refPrice + slip) (tickSize fm);
               notional = executedPrice * q;
               fee_amount = notional * fee_taker fm;
               (delta, l') = applyFill (ledger fm) side q executedPrice fee_amount
           in (fm\<lparr>ledger := l'\<rparr>,
               [\<lparr> f_orderId = oid, f_timestamp = ts, f_side = side, f_qty = q,
                   f_price = executedPrice, executedNotional = notional, fee = fee_amount,
                   feeRate = fee_taker fm, liquidity = ''taker'', realizedPnlDelta = delta \<rparr>],
               0)))"

subsection \<open>Market orders\<close>

text \<open>Decimal digits of a counter, as string interpolation prints it.\<close>

fun decimal :: "nat \<Rightarrow> string" where
  "decimal n =
     (if n < 10 then [char_of (48 + n)]
      else decimal (n div 10) @ [char_of (48 + n mod 10)])"

declare decimal.simps [simp del]

record report =
  r_status :: string
  r_orderId :: string
  requestedQty :: num
  filledQty :: num
  r_remainingQty :: num
  r_fills :: "fill list"

datatype market_result =
    Validation_failed validation
  | Executed report

text \<open>
  An order id that is absent or empty is replaced by a generated one, which advances
  the counter.
\<close>

definition executeMarketOrder ::
  "FillModel \<Rightarrow> string \<Rightarrow> num \<Rightarrow> num \<Rightarrow> string option \<Rightarrow> book \<Rightarrow> market \<Rightarrow>
   slippageModel option \<Rightarrow> market_result \<times> FillModel" where
  "executeMarketOrder fm side q ts orderId orderbook m slippage =
     (case validateOrder fm q (priceHint_of m) of
        Rejected r a b \<Rightarrow> (Validation_failed (Rejected r a b), fm)
      | Ok roundedQty \<Rightarrow>
          (let generated = (''mkt-'' @ decimal (next_id fm), fm\<lparr>next_id := next_id fm + 1\<rparr>);
               (oid, fm0) = (case orderId of
                               None \<Rightarrow> generated
                             | Some s \<Rightarrow> if s = [] then generated else (s, fm));
               (fm1, bookFills, bookRemaining) =
                  bookFill fm0 side roundedQty orderbook None ts oid True;
               (fm2, fills, remaining) =
                  (if bookRemaining > 0
                   then (let (fm', fallbackFills, r) =
                               booklessFill fm1 side bookRemaining m oid ts slippage
                         in (fm', bookFills @ fallbackFills, r))
                   else (fm1, bookFills, bookRemaining))
           in (Executed \<lparr> r_status = (if remaining = 0 then ''filled'' else ''partial''),
                           r_orderId = oid,
                           requestedQty = roundedQty,
                           filledQty = roundedQty - remaining,
                           r_remainingQty = remaining,
                           r_fills = fills \<rparr>,
               fm2)))"

subsection \<open>Limit orders\<close>

datatype submit_result =
    Submit_rejected validation
  | Accepted string order

definition submitLimitOrder ::
  "FillModel \<Rightarrow> string \<Rightarrow> num \<Rightarrow> num \<Rightarrow> string \<Rightarrow> num option \<Rightarrow> num \<Rightarrow> string option \<Rightarrow>
   submit_result \<times> FillModel" where
  "submitLimitOrder fm side q price md ttlMs ts orderId =
     (let roundedPrice = roundToTick price (tickSize fm)
      in case validateOrder fm q (Some roundedPrice) of
           Rejected r a b \<Rightarrow> (Submit_rejected (Rejected r a b), fm)
         | Ok roundedQty \<Rightarrow>
             (let generated = (''lmt-'' @ decimal (next_id fm), fm\<lparr>next_id := next_id fm + 1\<rparr>);
                  (oid, fm0) = (case orderId of
                                  None \<Rightarrow> generated
                                | Some s \<Rightarrow> if s = [] then generated else (s, fm));
                  ord = \<lparr> o_orderId = oid, o_side = side, o_qty = roundedQty,
                          remainingQty = roundedQty, o_price = roundedPrice, mode = md,
                          status = ''open'', createdAt = ts,
                          activeAt = ts + orderLatencyMs fm,
                          expiresAt = (case ttlMs of Some ttl \<Rightarrow> Some (ts + ttl) | None \<Rightarrow> None),
                          cancelRequestedAt = None, cancelEffectiveAt = None,
                          o_fills = [] \<rparr>
              in (Accepted oid ord, fm0\<lparr>orders := AList.update oid ord (orders fm0)\<rparr>)))"

datatype cancel_result =
    Cancel_rejected string string
  | Cancel_requested string num

text \<open>The latency is \<open>None\<close> when the caller leaves the default to the model.\<close>

definition requestCancel ::
  "FillModel \<Rightarrow> string \<Rightarrow> num \<Rightarrow> num option \<Rightarrow> cancel_result \<times> FillModel" where
  "requestCancel fm orderId ts latencyMs =
     (case map_of (orders fm) orderId of
        None \<Rightarrow> (Cancel_rejected ''order_not_open'' orderId, fm)
      | Some ord \<Rightarrow>
          if status ord \<noteq> ''open'' then (Cancel_rejected ''order_not_open'' orderId, fm)
          else
            (let effective = ts + max 0 (orElse latencyMs (defaultCancelLatencyMs fm));
                 ord' = ord\<lparr> cancelRequestedAt := Some ts, cancelEffectiveAt := Some effective \<rparr>
             in (Cancel_requested orderId effective,
                 fm\<lparr>orders := AList.update orderId ord' (orders fm)\<rparr>)))"

text \<open>
  The market event the fill model is given. A best ask or bid that is absent makes the
  comparison false (\<open>Number(undefined)\<close> is \<open>NaN\<close>); an event without \<open>orderbook\<close> uses its
  own \<open>asks\<close> and \<open>bids\<close>.
\<close>

record marketEvent =
  me_timestamp :: num
  bestAsk :: "num option"
  bestBid :: "num option"
  me_orderbook :: "book option"
  me_asks :: "level list"
  me_bids :: "level list"

definition crossed :: "order \<Rightarrow> marketEvent \<Rightarrow> bool" where
  "crossed ord me =
     (if o_side ord = ''buy''
      then (case bestAsk me of Some a \<Rightarrow> a \<le> o_price ord | None \<Rightarrow> False)
      else (case bestBid me of Some b \<Rightarrow> b \<ge> o_price ord | None \<Rightarrow> False))"

definition executeLimitOrder ::
  "FillModel \<Rightarrow> order \<Rightarrow> marketEvent \<Rightarrow> FillModel \<times> order \<times> fill list" where
  "executeLimitOrder fm ord me =
     (if \<not> crossed ord me \<and> mode ord = ''passive'' then (fm, ord, [])
      else
        (let bk = (case me_orderbook me of
                     Some b \<Rightarrow> b
                   | None \<Rightarrow> \<lparr> asks = me_asks me, bids = me_bids me \<rparr>);
             (fm', fills, remaining) =
                bookFill fm (o_side ord) (remainingQty ord) bk (Some (o_price ord))
                  (me_timestamp me) (o_orderId ord) (mode ord = ''aggressive'')
         in if fills \<noteq> []
            then (fm',
                  ord\<lparr> o_fills := o_fills ord @ fills,
                       remainingQty := remaining,
                       status := (if remaining \<le> 0 then ''filled'' else status ord) \<rparr>,
                  fills)
            else (fm', ord, fills)))"

record cancellation =
  c_orderId :: string
  c_reason :: string
  c_timestamp :: num

text \<open>
  The body of the loop of \<open>processMarketEvent\<close> for one order of the map: the updated
  model and order, and the fills and cancellations the order adds.
\<close>

definition processOrder ::
  "FillModel \<Rightarrow> marketEvent \<Rightarrow> order \<Rightarrow> FillModel \<times> order \<times> fill list \<times> cancellation list" where
  "processOrder fm me ord =
     (if status ord \<noteq> ''open'' then (fm, ord, [], [])
      else if me_timestamp me < activeAt ord then (fm, ord, [], [])
      else if (case cancelEffectiveAt ord of Some c \<Rightarrow> me_timestamp me \<ge> c | None \<Rightarrow> False)
        then (fm, ord\<lparr>status := ''cancelled''\<rparr>, [],
              [\<lparr> c_orderId = o_orderId ord, c_reason = ''user_cancel'',
                  c_timestamp = me_timestamp me \<rparr>])
      else if (case expiresAt ord of Some x \<Rightarrow> me_timestamp me \<ge> x | None \<Rightarrow> False)
        then (fm, ord\<lparr>status := ''cancelled''\<rparr>, [],
              [\<lparr> c_orderId = o_orderId ord, c_reason = ''ttl_timeout'',
                  c_timestamp = me_timestamp me \<rparr>])
      else (let (fm', ord', fills) = executeLimitOrder fm ord me in (fm', ord', fills, [])))"

fun processOrders ::
  "FillModel \<Rightarrow> marketEvent \<Rightarrow> (string \<times> order) list \<Rightarrow>
   FillModel \<times> (string \<times> order) list \<times> fill list \<times> cancellation list" where
  "processOrders fm me [] = (fm, [], [], [])"
| "processOrders fm me ((key, ord) # rest) =
     (let (fm1, ord', fills, cancels) = processOrder fm me ord;
          (fm2, rest', fills', cancels') = processOrders fm1 me rest
      in (fm2, (key, ord') # rest', fills @ fills', cancels @ cancels'))"

definition processMarketEvent ::
  "FillModel \<Rightarrow> marketEvent \<Rightarrow> (fill list \<times> cancellation list) \<times> FillModel" where
  "processMarketEvent fm me =
     (let (fm', os, fills, cancels) = processOrders fm me (orders fm)
      in ((fills, cancels), fm'\<lparr>orders := os\<rparr>))"

subsection \<open>Sequences of calls\<close>

text \<open>
  The four public methods of a fill model, as a client calls them one after another on
  a new model; each call leaves the model in the state the next one finds.
\<close>

datatype fillModelCall =
    Call_executeMarketOrder string num num "string option" book market "slippageModel option"
  | Call_submitLimitOrder string num num string "num option" num "string option"
  | Call_requestCancel string num "num option"
  | Call_processMarketEvent marketEvent

fun after_call :: "FillModel \<Rightarrow> fillModelCall \<Rightarrow> FillModel" where
  "after_call fm (Call_executeMarketOrder side q ts orderId orderbook m slippage) =
     snd (executeMarketOrder fm side q ts orderId orderbook m slippage)"
| "after_call fm (Call_submitLimitOrder side q price md ttlMs ts orderId) =
     snd (submitLimitOrder fm side q price md ttlMs ts orderId)"
| "after_call fm (Call_requestCancel orderId ts latencyMs) =
     snd (requestCancel fm orderId ts latencyMs)"
| "after_call fm (Call_processMarketEvent me) = snd (processMarketEvent fm me)"

definition after_calls :: "FillModelOptions \<Rightarrow> fillModelCall list \<Rightarrow> FillModel" where
  "after_calls options calls = foldl after_call (new_FillModel options) calls"

section \<open>Seeded random source (engine/index.js)\<close>

text \<open>
  \<open>String(seed)\<close> of an integer seed is its decimal numeral (for integers below
  \<open>10\<^sup>2\<^sup>1\<close> in absolute value, where JavaScript does not switch to exponent notation).
\<close>

definition string_of_seed :: "int \<Rightarrow> string" where
  "string_of_seed i = (if i < 0 then CHR ''-'' # decimal (nat (- i)) else decimal (nat i))"

text \<open>
  FNV-1a over the characters; \<open>Math.imul\<close> is multiplication of 32-bit words and
  \<open>h >>> 0\<close> reads the word as unsigned.
\<close>

definition hashSeed :: "int \<Rightarrow> 32 word" where
  "hashSeed seed =
     fold (\<lambda>c h. (h XOR of_nat (of_char c)) * 16777619) (string_of_seed seed) 2166136261"

text \<open>
  The generator's \<open>state\<close> is a JavaScript number that only grows (the source adds to it
  without wrapping), so it is a natural number here; the bit operations read it modulo
  \<open>2\<^sup>3\<^sup>2\<close>. This is exact while the state is below \<open>2\<^sup>5\<^sup>3\<close>.
\<close>

definition createSeededRng :: "int \<Rightarrow> nat" where
  "createSeededRng seed = (let h = unat (hashSeed seed) in if h = 0 then 0x9e3779b9 else h)"

definition random :: "nat \<Rightarrow> num \<times> nat" where
  "random st =
     (let st' = st + 0x6d2b79f5;
          t0 = (of_nat st' :: 32 word);
          t1 = (t0 XOR drop_bit 15 t0) * (t0 OR 1);
          t2 = t1 XOR (t1 + (t1 XOR drop_bit 7 t1) * (t1 OR 61))
      in (of_nat (unat (t2 XOR drop_bit 14 t2)) / 4294967296, st'))"

section \<open>Backtest engine (engine/index.js)\<close>

subsection \<open>Events\<close>

text \<open>
  The event type is the source's string; \<open>Other_kind\<close> is a type that is not one of the
  nine (and not the name of a property every object inherits).
\<close>

datatype kind =
    Tick | Candle | Signal_generated | Order_submitted | Order_filled
  | Order_cancelled | Funding_payment | Margin_update | Liquidated | Other_kind

fun EVENT_PRIORITY :: "kind \<Rightarrow> nat" where
  "EVENT_PRIORITY Tick = 10"
| "EVENT_PRIORITY Candle = 10"
| "EVENT_PRIORITY Signal_generated = 20"
| "EVENT_PRIORITY Order_submitted = 30"
| "EVENT_PRIORITY Order_filled = 40"
| "EVENT_PRIORITY Order_cancelled = 50"
| "EVENT_PRIORITY Funding_payment = 60"
| "EVENT_PRIORITY Margin_update = 70"
| "EVENT_PRIORITY Liquidated = 80"
| "EVENT_PRIORITY Other_kind = 90"

text \<open>
  An order id is a string; \<open>Liq_id t\<close> is the template string \<open>liq-<t>\<close> that the
  liquidation handler builds from the event's timestamp.
\<close>

datatype order_ref = Order_id string | Liq_id num

text \<open>
  An event is an object with a type, a timestamp that is a finite number (a date string
  is taken as already parsed), the scheduling fields \<open>priority\<close> and \<open>_seq\<close>, and the
  payload fields the engine reads. A payload field that is absent (\<open>undefined\<close> or \<open>null\<close>,
  which \<open>??\<close> and the truth tests of the source do not tell apart) is \<open>None\<close>.
\<close>

record event =
  etype :: kind
  timestamp :: num
  priority :: nat
  seq :: nat
  e_price :: "num option"
  e_close :: "num option"
  e_mark_price :: "num option"
  e_markPrice :: "num option"
  e_order_id :: "order_ref option"
  e_side :: "string option"
  e_qty :: "num option"
  e_amount :: "num option"
  e_funding_rate :: "num option"
  e_interval_multiplier :: "num option"
  e_position_notional :: "num option"
  e_margin :: "num option"
  e_initial_margin :: "num option"
  e_maintenance_margin :: "num option"
  e_unrealized_pnl :: "num option"
  e_trigger :: "string option"
  e_reason :: "string option"
  e_penalty :: "num option"

definition new_event :: "kind \<Rightarrow> num \<Rightarrow> event" where
  "new_event k ts =
     \<lparr> etype = k, timestamp = ts, priority = 0, seq = 0,
       e_price = None, e_close = None, e_mark_price = None, e_markPrice = None,
       e_order_id = None, e_side = None, e_qty = None, e_amount = None,
       e_funding_rate = None, e_interval_multiplier = None, e_position_notional = None,
       e_margin = None, e_initial_margin = None, e_maintenance_margin = None,
       e_unrealized_pnl = None, e_trigger = None, e_reason = None, e_penalty = None \<rparr>"

text \<open>
  Arithmetic reads a \<open>null\<close> as 0. The engine reads two fields in arithmetic with no
  default before them: the quantity of an order-filled event and the amount of a
  funding-payment event. A \<open>null\<close> there is 0, as elsewhere; a field that is missing
  (\<open>undefined\<close>) gives \<open>NaN\<close>, which the exact numbers of this model do not have. For
  these two fields \<open>None\<close> is the missing field, a \<open>null\<close> is written \<open>Some 0\<close>, and
  \<open>processEvent\<close> below marks the run instead of computing with \<open>NaN\<close>.
\<close>

definition numOf :: "num option \<Rightarrow> num" where
  "numOf x = (case x of Some v \<Rightarrow> v | None \<Rightarrow> 0)"

text \<open>The nullish coalescing operator \<open>a ?? b\<close> on a possibly absent \<open>b\<close>.\<close>

definition coalesce :: "'a option \<Rightarrow> 'a option \<Rightarrow> 'a option" where
  "coalesce a b = (case a of Some v \<Rightarrow> Some v | None \<Rightarrow> b)"

definition normalizeEvent :: "event \<Rightarrow> event" where
  "normalizeEvent e = e\<lparr>priority := EVENT_PRIORITY (etype e)\<rparr>"

definition compareEvents :: "event \<Rightarrow> event \<Rightarrow> num" where
  "compareEvents a b =
     (if timestamp a \<noteq> timestamp b then timestamp a - timestamp b
      else if priority a \<noteq> priority b then of_nat (priority a) - of_nat (priority b)
      else of_nat (seq a) - of_nat (seq b))"

text \<open>The key that \<open>compareEvents\<close> orders by, compared lexicographically.\<close>

definition event_key :: "event \<Rightarrow> num \<times> nat \<times> nat" where
  "event_key e = (timestamp e, priority e, seq e)"

subsection \<open>Run parameters\<close>

text \<open>
  The three required strings (an absent one is the empty string, which draws the same
  error), the dates as epoch milliseconds, and the optional numbers. A seed is an
  integer by its type.
\<close>

record params =
  symbol :: string
  timeframe :: string
  market_type :: string
  start_date :: "int option"
  end_date :: "int option"
  initial_cash :: "num option"
  random_seed :: "int option"
  funding_rate :: "num option"
  funding_interval_ms :: "num option"
  initial_margin_rate :: "num option"
  maintenance_margin_rate :: "num option"
  liquidation_penalty_rate :: "num option"

datatype error =
    Required_string string
  | Invalid_market_type
  | Dates_required
  | Invalid_dates
  | Start_after_end
  | Invalid_initial_cash
  | Unknown_event_type
  | Not_a_number

text \<open>\<open>trim\<close> removes white space; of the ASCII characters these are the six below.\<close>

definition blank :: "string \<Rightarrow> bool" where
  "blank s = (\<forall>c \<in> set s. of_char c \<in> {9, 10, 11, 12, 13, 32 :: nat})"

text \<open>A \<open>Date\<close> holds at most \<open>8.64 \<times> 10\<^sup>1\<^sup>5\<close> milliseconds either side of the epoch.\<close>

definition valid_date :: "int \<Rightarrow> bool" where
  "valid_date t = (\<bar>t\<bar> \<le> 8640000000000000)"

definition validateRunParams :: "params \<Rightarrow> error option" where
  "validateRunParams p =
     (if blank (symbol p) then Some (Required_string ''symbol'')
      else if blank (timeframe p) then Some (Required_string ''timeframe'')
      else if blank (market_type p) then Some (Required_string ''market_type'')
      else if market_type p \<notin> {''spot'', ''futures'', ''perpetual''} then Some Invalid_market_type
      else case (start_date p, end_date p) of
             (Some start, Some finish) \<Rightarrow>
               if \<not> valid_date start \<or> \<not> valid_date finish then Some Invalid_dates
               else if start > finish then Some Start_after_end
               else if (case initial_cash p of Some c \<Rightarrow> c < 0 | None \<Rightarrow> False)
                 then Some Invalid_initial_cash
               else None
           | _ \<Rightarrow> Some Dates_required)"

definition isMarginMarket :: "string \<Rightarrow> bool" where
  "isMarginMarket marketType = (marketType = ''futures'' \<or> marketType = ''perpetual'')"

subsection \<open>Engine state\<close>

record accountState =
  cash :: num
  equity :: num
  margin :: num
  maintenanceMargin :: num
  unrealizedPnl :: num
  lastPrice :: "num option"
  markPrice :: "num option"
  position :: position
  liquidated :: bool

datatype tradeLog =
    Log_order_submitted num "order_ref option" "string option" "num option" "num option"
  | Log_order_filled num "order_ref option" "string option" "num option" "num option"
      num position
  | Log_order_cancelled num "order_ref option" "string option"
  | Log_funding_payment num "num option" "num option" "num option"
  | Log_margin_update num num num num num "num option" "string option"
  | Log_liquidated num "string option" num

record equityEntry =
  eq_timestamp :: num
  eq_equity :: num
  eq_cash :: num
  eq_margin :: num
  eq_maintenance_margin :: num
  position_qty :: num
  position_avg_price :: num
  last_price :: "num option"
  eq_mark_price :: num

text \<open>
  The engine instance: the fields \<open>reset\<close> initialises, the random source (the state of
  the generator's closure) and the private state of the two collaborators. \<open>tracked\<close> is
  the map \<open>_orders\<close>, in insertion order.
\<close>

record ('s, 'x) engine =
  state :: accountState
  eventQueue :: "event list"
  seq_counter :: nat
  tradeLogs :: "tradeLog list"
  equitySeries :: "equityEntry list"
  tracked :: "(order_ref option \<times> event \<times> string) list"
  currentConfig :: "params option"
  nextFundingTimestamp :: "num option"
  randomSeed :: int
  rng :: nat
  strategy_state :: 's
  execution_state :: 'x

text \<open>
  What a collaborator is handed: the context of \<open>createContext\<close> (state, configuration,
  timestamp and risk price). Its calls of \<open>ctx.random\<close> thread the generator's state, and
  the events it passes to \<open>ctx.queueEvent\<close> come first in the list it returns.
\<close>

record handlerContext =
  ctx_state :: accountState
  ctx_config :: "params option"
  ctx_timestamp :: num
  ctx_markPrice :: num

type_synonym 'a handler = "'a \<Rightarrow> event \<Rightarrow> handlerContext \<Rightarrow> nat \<Rightarrow> event list \<times> 'a \<times> nat"

record ('s, 'x) collaborators =
  onEvent :: "'s handler"
  onSignal :: "'x handler"
  onMarketEvent :: "'x handler"

definition initial_state :: accountState where
  "initial_state =
     \<lparr> cash = 0, equity = 0, margin = 0, maintenanceMargin = 0, unrealizedPnl = 0,
       lastPrice = None, markPrice = None, position = \<lparr> qty = 0, avgPrice = 0 \<rparr>,
       liquidated = False \<rparr>"

definition reset :: "('s, 'x) engine \<Rightarrow> ('s, 'x) engine" where
  "reset en =
     en\<lparr> state := initial_state, eventQueue := [], seq_counter := 0, tradeLogs := [],
         equitySeries := [], tracked := [], currentConfig := None,
         nextFundingTimestamp := None \<rparr>"

text \<open>
  The constructor: the seed of the options (1 when absent) and the collaborators' initial
  private states.
\<close>

definition new_BacktestEngine :: "int option \<Rightarrow> 's \<Rightarrow> 'x \<Rightarrow> ('s, 'x) engine" where
  "new_BacktestEngine seed s0 x0 =
     \<lparr> state = initial_state, eventQueue = [], seq_counter = 0, tradeLogs = [],
       equitySeries = [], tracked = [], currentConfig = None, nextFundingTimestamp = None,
       randomSeed = orElse seed 1, rng = createSeededRng (orElse seed 1),
       strategy_state = s0, execution_state = x0 \<rparr>"

subsection \<open>The event queue\<close>

fun assign_seq :: "nat \<Rightarrow> event list \<Rightarrow> event list \<times> nat" where
  "assign_seq n [] = ([], n)"
| "assign_seq n (e # es) =
     (let (es', n') = assign_seq (n + 1) es in ((normalizeEvent e)\<lparr>seq := n\<rparr> # es', n'))"

text \<open>
  \<open>Array.prototype.sort\<close> with \<open>compareEvents\<close> is the stable sort by \<^const>\<open>event_key\<close>.
\<close>

definition enqueueEvents :: "event list \<Rightarrow> ('s, 'x) engine \<Rightarrow> ('s, 'x) engine" where
  "enqueueEvents events en =
     (let (numbered, n) = assign_seq (seq_counter en) events
      in en\<lparr> eventQueue := sort_key event_key (eventQueue en @ numbered),
             seq_counter := n \<rparr>)"

definition cfg_num :: "(params \<Rightarrow> num option) \<Rightarrow> ('s, 'x) engine \<Rightarrow> num" where
  "cfg_num field en = (case currentConfig en of None \<Rightarrow> 0 | Some cfg \<Rightarrow> numOf (field cfg))"

definition cfg_market_type :: "('s, 'x) engine \<Rightarrow> string" where
  "cfg_market_type en = (case currentConfig en of None \<Rightarrow> [] | Some cfg \<Rightarrow> market_type cfg)"

definition getRiskPrice :: "('s, 'x) engine \<Rightarrow> num" where
  "getRiskPrice en =
     (let st = state en
      in if isMarginMarket (cfg_market_type en)
         then orElse (coalesce (markPrice st) (lastPrice st)) (avgPrice (position st))
         else orElse (lastPrice st) (avgPrice (position st)))"

definition createContext :: "('s, 'x) engine \<Rightarrow> num \<Rightarrow> handlerContext" where
  "createContext en ts =
     \<lparr> ctx_state = state en, ctx_config = currentConfig en, ctx_timestamp = ts,
       ctx_markPrice = getRiskPrice en \<rparr>"

subsection \<open>Funding and risk scheduling\<close>

text \<open>
  The \<open>while\<close> loop of \<open>queueFundingEventsUntil\<close>. It is entered only with a positive
  interval (the guard before it returns otherwise); the test is repeated here so that
  the recursion is total.
\<close>

function queueFunding_loop ::
  "num \<Rightarrow> num \<Rightarrow> num \<Rightarrow> ('s, 'x) engine \<Rightarrow> ('s, 'x) engine" where
  "queueFunding_loop ts intervalMs fundingRate en =
     (case nextFundingTimestamp en of
        None \<Rightarrow> en
      | Some boundary \<Rightarrow>
          if 0 < intervalMs \<and> boundary \<le> ts then
            (let riskPrice = getRiskPrice en;
                 notional = \<bar>qty (position (state en))\<bar> * \<bar>riskPrice\<bar>;
                 payment = - notional * fundingRate;
                 en' = enqueueEvents
                         [(new_event Funding_payment boundary)
                            \<lparr> e_amount := Some payment,
                              e_funding_rate := Some fundingRate,
                              e_interval_multiplier := Some 1,
                              e_position_notional := Some notional \<rparr>] en
             in queueFunding_loop ts intervalMs fundingRate
                  (en'\<lparr>nextFundingTimestamp := Some (boundary + intervalMs)\<rparr>))
          else en)"
  by pat_completeness auto

termination
proof (relation "measure (\<lambda>(ts, intervalMs, fundingRate, en).
          nat (\<lceil>(ts - orElse (nextFundingTimestamp en) 0) / intervalMs\<rceil> + 1))")
  show "wf (measure (\<lambda>(ts, intervalMs, fundingRate, en :: ('s, 'x) engine).
          nat (\<lceil>(ts - orElse (nextFundingTimestamp en) 0) / intervalMs\<rceil> + 1)))"
    by simp
next
  fix ts intervalMs fundingRate :: num and en :: "('s, 'x) engine"
    and boundary riskPrice notional payment :: num and en' :: "('s, 'x) engine"
  assume b: "nextFundingTimestamp en = Some boundary"
    and g: "0 < intervalMs \<and> boundary \<le> ts"
  have "(ts - (boundary + intervalMs)) / intervalMs = (ts - boundary) / intervalMs - 1"
    using g by (simp add: field_simps)
  moreover have "0 \<le> (ts - boundary) / intervalMs"
    using g by simp
  then have "0 \<le> \<lceil>(ts - boundary) / intervalMs\<rceil>"
    by (metis ceiling_mono ceiling_zero)
  ultimately show "((ts, intervalMs, fundingRate,
             en'\<lparr>nextFundingTimestamp := Some (boundary + intervalMs)\<rparr>),
            (ts, intervalMs, fundingRate, en))
        \<in> measure (\<lambda>(ts, intervalMs, fundingRate, en).
             nat (\<lceil>(ts - orElse (nextFundingTimestamp en) 0) / intervalMs\<rceil> + 1))"
    using b by (simp add: orElse_def)
qed

declare queueFunding_loop.simps [simp del]

definition queueFundingEventsUntil :: "num \<Rightarrow> ('s, 'x) engine \<Rightarrow> ('s, 'x) engine" where
  "queueFundingEventsUntil ts en =
     (let fundingRate = cfg_num funding_rate en;
          intervalMs = cfg_num funding_interval_ms en
      in if fundingRate = 0 \<or> intervalMs \<le> 0 \<or> qty (position (state en)) = 0 then en
         else case nextFundingTimestamp en of
                None \<Rightarrow> en\<lparr>nextFundingTimestamp := Some (ts + intervalMs)\<rparr>
              | Some boundary \<Rightarrow> queueFunding_loop ts intervalMs fundingRate en)"

definition queueRiskEvents :: "num \<Rightarrow> string \<Rightarrow> ('s, 'x) engine \<Rightarrow> ('s, 'x) engine" where
  "queueRiskEvents ts trig en =
     (if \<not> isMarginMarket (cfg_market_type en) then en
      else
        (let snapshot = calculateMarginSnapshot (position (state en)) (Some (getRiskPrice en))
                          (cfg_num initial_margin_rate en) (cfg_num maintenance_margin_rate en);
             en1 = enqueueEvents
                     [(new_event Margin_update ts)
                        \<lparr> e_mark_price := Some (ms_markPrice snapshot),
                          e_initial_margin := Some (initialMargin snapshot),
                          e_maintenance_margin := Some (ms_maintenanceMargin snapshot),
                          e_unrealized_pnl := Some (ms_unrealizedPnl snapshot),
                          e_trigger := Some trig \<rparr>] en;
             projectedEquity = cash (state en1) + ms_unrealizedPnl snapshot
         in if \<bar>qty (position (state en1))\<bar> > 0 \<and> projectedEquity < ms_maintenanceMargin snapshot
            then
              (let penaltyRate = max 0 (cfg_num liquidation_penalty_rate en1);
                   pen = positionNotional snapshot * penaltyRate
               in enqueueEvents
                    [(new_event Liquidated ts)
                       \<lparr> e_price := Some (ms_markPrice snapshot),
                         e_reason := Some ''maintenance_margin_breach'',
                         e_penalty := Some pen \<rparr>] en1)
            else en1))"

subsection \<open>Event handlers\<close>

definition handleMarketEvent ::
  "('s, 'x) collaborators \<Rightarrow> event \<Rightarrow> ('s, 'x) engine \<Rightarrow> ('s, 'x) engine" where
  "handleMarketEvent c event en =
     (let st = state en;
          lp = coalesce (e_price event) (coalesce (e_close event) (lastPrice st));
          mp = coalesce (e_mark_price event)
                 (coalesce (e_markPrice event) (coalesce (markPrice st) lp));
          en1 = en\<lparr>state := st\<lparr>lastPrice := lp, markPrice := mp\<rparr>\<rparr>;
          (strategyEvents, s', r1) =
             onEvent c (strategy_state en1) event (createContext en1 (timestamp event)) (rng en1);
          en2 = enqueueEvents strategyEvents (en1\<lparr>rng := r1, strategy_state := s'\<rparr>);
          (executionEvents, x', r2) =
             onMarketEvent c (execution_state en2) event (createContext en2 (timestamp event))
               (rng en2);
          en3 = enqueueEvents executionEvents (en2\<lparr>rng := r2, execution_state := x'\<rparr>);
          en4 = queueFundingEventsUntil (timestamp event) en3
      in queueRiskEvents (timestamp event) ''market'' en4)"

definition handleSignal ::
  "('s, 'x) collaborators \<Rightarrow> event \<Rightarrow> ('s, 'x) engine \<Rightarrow> ('s, 'x) engine" where
  "handleSignal c event en =
     (let (executionEvents, x', r) =
             onSignal c (execution_state en) event (createContext en (timestamp event)) (rng en)
      in enqueueEvents executionEvents (en\<lparr>rng := r, execution_state := x'\<rparr>))"

definition handleOrderSubmitted :: "event \<Rightarrow> ('s, 'x) engine \<Rightarrow> ('s, 'x) engine" where
  "handleOrderSubmitted event en =
     en\<lparr> tradeLogs := tradeLogs en @
           [Log_order_submitted (timestamp event) (e_order_id event) (e_side event)
              (e_qty event) (e_price event)],
         tracked := AList.update (e_order_id event) (event, ''submitted'') (tracked en) \<rparr>"

text \<open>
  The fill price is the event's or, failing that, the last price; when both are \<open>null\<close>
  the arithmetic reads 0.
\<close>

definition handleOrderFilled :: "event \<Rightarrow> ('s, 'x) engine \<Rightarrow> ('s, 'x) engine" where
  "handleOrderFilled event en =
     (let st = state en;
          fillPrice = coalesce (e_price event) (lastPrice st);
          signedQty = (if e_side event = Some ''sell'' then - \<bar>numOf (e_qty event)\<bar>
                       else \<bar>numOf (e_qty event)\<bar>);
          val = signedQty * numOf fillPrice;
          prevQty = qty (position st);
          newQty = prevQty + signedQty;
          newAvg =
            (if newQty = 0 then 0
             else if sgn prevQty = sgn newQty \<or> prevQty = 0
               then (avgPrice (position st) * prevQty + numOf fillPrice * signedQty) / newQty
             else if sgn prevQty \<noteq> sgn newQty then numOf fillPrice
             else avgPrice (position st));
          st' = st\<lparr> cash := cash st - val,
                    position := \<lparr> qty = newQty, avgPrice = newAvg \<rparr> \<rparr>;
          en1 = en\<lparr> state := st',
                    tradeLogs := tradeLogs en @
                      [Log_order_filled (timestamp event) (e_order_id event) (e_side event)
                         (e_qty event) fillPrice (cash st') (position st')],
                    tracked := AList.update (e_order_id event) (event, ''filled'') (tracked en) \<rparr>
      in queueRiskEvents (timestamp event) ''fill'' en1)"

definition handleOrderCancelled :: "event \<Rightarrow> ('s, 'x) engine \<Rightarrow> ('s, 'x) engine" where
  "handleOrderCancelled event en =
     (let en1 = (case map_of (tracked en) (e_order_id event) of
                   Some (ev, st) \<Rightarrow>
                     en\<lparr>tracked := AList.update (e_order_id event) (ev, ''cancelled'') (tracked en)\<rparr>
                 | None \<Rightarrow> en)
      in en1\<lparr> tradeLogs := tradeLogs en1 @
                [Log_order_cancelled (timestamp event) (e_order_id event) (e_reason event)] \<rparr>)"

definition handleFundingPayment :: "event \<Rightarrow> ('s, 'x) engine \<Rightarrow> ('s, 'x) engine" where
  "handleFundingPayment event en =
     (let st = state en;
          en1 = en\<lparr> state := st\<lparr>cash := cash st + numOf (e_amount event)\<rparr>,
                    tradeLogs := tradeLogs en @
                      [Log_funding_payment (timestamp event) (e_amount event)
                         (e_funding_rate event) (e_interval_multiplier event)] \<rparr>
      in queueRiskEvents (timestamp event) ''funding'' en1)"

definition handleMarginUpdate :: "event \<Rightarrow> ('s, 'x) engine \<Rightarrow> ('s, 'x) engine" where
  "handleMarginUpdate event en =
     (let st = state en;
          st' = st\<lparr> margin := orElse (coalesce (e_initial_margin event)
                                 (coalesce (e_margin event) (e_amount event))) (margin st),
                    maintenanceMargin :=
                      orElse (e_maintenance_margin event) (maintenanceMargin st),
                    unrealizedPnl := orElse (e_unrealized_pnl event) (unrealizedPnl st) \<rparr>
      in en\<lparr> state := st',
             tradeLogs := tradeLogs en @
               [Log_margin_update (timestamp event) (margin st') (margin st')
                  (maintenanceMargin st') (unrealizedPnl st') (e_mark_price event)
                  (e_trigger event)] \<rparr>)"

text \<open>
  The liquidation handler calls \<open>handleOrderFilled\<close> itself, on the event it builds; a
  penalty that is absent or 0 is falsy and leaves the cash alone.
\<close>

definition handleLiquidation :: "event \<Rightarrow> ('s, 'x) engine \<Rightarrow> ('s, 'x) engine" where
  "handleLiquidation event en =
     (let en1 = en\<lparr>state := (state en)\<lparr>liquidated := True\<rparr>\<rparr>;
          pos = position (state en1);
          en2 =
            (if qty pos \<noteq> 0 then
               (let closeSide = (if qty pos > 0 then ''sell'' else ''buy'');
                    liquidationPrice =
                      orElse (coalesce (e_price event) (lastPrice (state en1))) (avgPrice pos)
                in handleOrderFilled
                     (event\<lparr> etype := Order_filled,
                             e_price := Some liquidationPrice,
                             e_order_id := Some (case e_order_id event of
                                                   Some i \<Rightarrow> i
                                                 | None \<Rightarrow> Liq_id (timestamp event)),
                             e_side := Some closeSide,
                             e_qty := Some \<bar>qty pos\<bar> \<rparr>) en1)
             else en1);
          en3 = (if numOf (e_penalty event) \<noteq> 0
                 then en2\<lparr>state := (state en2)\<lparr>cash := cash (state en2) - \<bar>numOf (e_penalty event)\<bar>\<rparr>\<rparr>
                 else en2)
      in en3\<lparr> tradeLogs := tradeLogs en3 @
                [Log_liquidated (timestamp event) (e_reason event) (numOf (e_penalty event))] \<rparr>)"

definition updateEquity :: "num \<Rightarrow> ('s, 'x) engine \<Rightarrow> ('s, 'x) engine" where
  "updateEquity ts en =
     (let riskPrice = getRiskPrice en;
          st = state en;
          pnl = calculateUnrealizedPnl (position st) (Some riskPrice);
          st' = st\<lparr> equity := cash st + pnl, unrealizedPnl := pnl \<rparr>
      in en\<lparr> state := st',
             equitySeries := equitySeries en @
               [\<lparr> eq_timestamp = ts, eq_equity = equity st', eq_cash = cash st',
                   eq_margin = margin st', eq_maintenance_margin = maintenanceMargin st',
                   position_qty = qty (position st'),
                   position_avg_price = avgPrice (position st'),
                   last_price = lastPrice st', eq_mark_price = riskPrice \<rparr>] \<rparr>)"

text \<open>
  An event of no known type makes \<open>processEvent\<close> throw. \<open>Not_a_number\<close> is no exception
  of the source: an order-filled event without a quantity or a funding-payment event
  without an amount makes the source go on with \<open>NaN\<close> in the account state, and the
  model ends the run there.
\<close>

definition processEvent ::
  "('s, 'x) collaborators \<Rightarrow> event \<Rightarrow> ('s, 'x) engine \<Rightarrow> error + ('s, 'x) engine" where
  "processEvent c event en =
     (case etype event of
        Tick \<Rightarrow> Inr (updateEquity (timestamp event) (handleMarketEvent c event en))
      | Candle \<Rightarrow> Inr (updateEquity (timestamp event) (handleMarketEvent c event en))
      | Signal_generated \<Rightarrow> Inr (updateEquity (timestamp event) (handleSignal c event en))
      | Order_submitted \<Rightarrow> Inr (updateEquity (timestamp event) (handleOrderSubmitted event en))
      | Order_filled \<Rightarrow>
          (case e_qty event of
             None \<Rightarrow> Inl Not_a_number
           | Some q \<Rightarrow> Inr (updateEquity (timestamp event) (handleOrderFilled event en)))
      | Order_cancelled \<Rightarrow> Inr (updateEquity (timestamp event) (handleOrderCancelled event en))
      | Funding_payment \<Rightarrow>
          (case e_amount event of
             None \<Rightarrow> Inl Not_a_number
           | Some a \<Rightarrow> Inr (updateEquity (timestamp event) (handleFundingPayment event en)))
      | Margin_update \<Rightarrow> Inr (updateEquity (timestamp event) (handleMarginUpdate event en))
      | Liquidated \<Rightarrow> Inr (updateEquity (timestamp event) (handleLiquidation event en))
      | Other_kind \<Rightarrow> Inl Unknown_event_type)"

subsection \<open>The run\<close>

text \<open>
  The processing loop of \<open>run\<close>, with a bound on the number of iterations: the result
  is \<open>None\<close> when the bound is reached with events still pending, an error when
  \<open>processEvent\<close> throws, and the engine at the loop's exit otherwise. The first component
  records the dispatches in order: each event handed to \<open>processEvent\<close>, with the events
  that were left pending in the queue at that moment.
\<close>

fun run_loop ::
  "nat \<Rightarrow> ('s, 'x) collaborators \<Rightarrow> ('s, 'x) engine \<Rightarrow>
   (event \<times> event list) list \<times> (error + ('s, 'x) engine) option" where
  "run_loop n c en =
     (case eventQueue en of
        [] \<Rightarrow> ([], Some (Inr en))
      | nextEvent # rest \<Rightarrow>
          (case n of
             0 \<Rightarrow> ([], None)
           | Suc m \<Rightarrow>
               (case processEvent c nextEvent (en\<lparr>eventQueue := rest\<rparr>) of
                  Inl err \<Rightarrow> ([(nextEvent, rest)], Some (Inl err))
                | Inr en' \<Rightarrow>
                    if liquidated (state en') then ([(nextEvent, rest)], Some (Inr en'))
                    else (let (dispatched, r) = run_loop m c en'
                          in ((nextEvent, rest) # dispatched, r)))))"

declare run_loop.simps [simp del]

record runResult =
  res_tradeLogs :: "tradeLog list"
  res_equitySeries :: "equityEntry list"
  finalState :: accountState

text \<open>
  The engine as \<open>run\<close> leaves it when the loop starts: validated parameters, a reset
  instance, the initial cash, the generator seeded again when the parameters carry a
  seed, and the adapter's events normalised and enqueued.
\<close>

definition start_run :: "('s, 'x) engine \<Rightarrow> params \<Rightarrow> event list \<Rightarrow> ('s, 'x) engine" where
  "start_run en p events =
     (let en1 = (reset en)\<lparr>currentConfig := Some p\<rparr>;
          en2 = (case initial_cash p of
                   Some c \<Rightarrow> en1\<lparr>state := (state en1)\<lparr>cash := c, equity := c\<rparr>\<rparr>
                 | None \<Rightarrow> en1);
          en3 = (case random_seed p of
                   Some seed \<Rightarrow> en2\<lparr>randomSeed := seed, rng := createSeededRng seed\<rparr>
                 | None \<Rightarrow> en2)
      in enqueueEvents (map normalizeEvent events) en3)"

text \<open>
  \<open>run\<close> on an engine with a strategy and an adapter attached; \<open>events\<close> is what the
  adapter's \<open>load\<close> returns. The result is \<open>None\<close> when the loop does not end within the
  bound.
\<close>

definition run ::
  "('s, 'x) collaborators \<Rightarrow> nat \<Rightarrow> ('s, 'x) engine \<Rightarrow> params \<Rightarrow> event list \<Rightarrow>
   (error + runResult) option" where
  "run c fuel en p events =
     (case validateRunParams p of
        Some err \<Rightarrow> Some (Inl err)
      | None \<Rightarrow>
          (case snd (run_loop fuel c (start_run en p events)) of
             None \<Rightarrow> None
           | Some (Inl err) \<Rightarrow> Some (Inl err)
           | Some (Inr en') \<Rightarrow>
               Some (Inr \<lparr> res_tradeLogs = tradeLogs en',
                           res_equitySeries = equitySeries en',
                           finalState = state en' \<rparr>)))"

text \<open>The events the loop of a run dispatches, in order.\<close>

definition dispatched_events ::
  "('s, 'x) collaborators \<Rightarrow> nat \<Rightarrow> ('s, 'x) engine \<Rightarrow> params \<Rightarrow> event list \<Rightarrow> event list" where
  "dispatched_events c fuel en p events =
     map fst (fst (run_loop fuel c (start_run en p events)))"

subsection \<open>The default execution model\<close>

text \<open>Its private state is the counter \<open>orderCounter\<close>, 0 in a new instance.\<close>

definition default_onSignal :: "nat handler" where
  "default_onSignal orderCounter signal ctx r =
     (if e_side signal = None \<or> e_side signal = Some [] \<or>
         e_qty signal = None \<or> e_qty signal = Some 0
      then ([], orderCounter, r)
      else
        (let counter' = orderCounter + 1;
             orderId = Order_id (''order-'' @ decimal counter');
             (u1, r1) = random r;
             latencyMs = of_int \<lfloor>u1 * 100\<rfloor>;
             (u2, r2) = random r1;
             slippageBps = (u2 - 1 / 2) * 10;
             refPrice = orElse (coalesce (e_price signal) (lastPrice (ctx_state ctx))) 0;
             fillPrice = refPrice * (1 + slippageBps / 10000);
             baseTimestamp = timestamp signal
         in ([(new_event Order_submitted baseTimestamp)
                \<lparr> e_price := Some refPrice, e_order_id := Some orderId,
                  e_side := e_side signal, e_qty := e_qty signal \<rparr>,
              (new_event Order_filled (baseTimestamp + latencyMs))
                \<lparr> e_price := Some fillPrice, e_order_id := Some orderId,
                  e_side := e_side signal, e_qty := e_qty signal \<rparr>],
             counter', r2)))"

definition default_onMarketEvent :: "nat handler" where
  "default_onMarketEvent orderCounter event ctx r = ([], orderCounter, r)"

text \<open>An engine made without an execution option, with the strategy \<open>strategy\<close> attached.\<close>

definition with_default_execution :: "'s handler \<Rightarrow> ('s, nat) collaborators" where
  "with_default_execution strategy =
     \<lparr> onEvent = strategy, onSignal = default_onSignal, onMarketEvent = default_onMarketEvent \<rparr>"

section \<open>Configurations of the unit tests\<close>

text \<open>
  The fill model of \<open>tests/unit/fill_model.test.js\<close>: tick size 0.1, taker fee 0.1\%, and
  the lot step given or not.
\<close>

definition example_fill_model :: "num option \<Rightarrow> FillModel" where
  "example_fill_model step =
     new_FillModel \<lparr> opt_tickSize = Some (1 / 10), opt_stepSize = step,
       opt_minNotional = None, opt_minQty = None, opt_maxQty = None,
       opt_makerFeeRate = None, opt_takerFeeRate = Some (1 / 1000),
       opt_slippageModel = None, opt_cancelLatencyMs = None, opt_orderLatencyMs = None \<rparr>"

text \<open>A fill model with a minimum quantity of 1 and a minimum notional of 100.\<close>

definition bounded_fill_model :: FillModel where
  "bounded_fill_model =
     new_FillModel \<lparr> opt_tickSize = None, opt_stepSize = None,
       opt_minNotional = Some 100, opt_minQty = Some 1, opt_maxQty = None,
       opt_makerFeeRate = None, opt_takerFeeRate = None,
       opt_slippageModel = None, opt_cancelLatencyMs = None, opt_orderLatencyMs = None \<rparr>"

text \<open>
  The limit order of the unit test (tick and lot step 1, maker fee 0.05\%): a passive
  buy of 5 at 100 with a time to live of 10, and the market events it meets.
\<close>

definition limit_test_options :: FillModelOptions where
  "limit_test_options =
     \<lparr> opt_tickSize = Some 1, opt_stepSize = Some 1,
       opt_minNotional = None, opt_minQty = None, opt_maxQty = None,
       opt_makerFeeRate = Some (1 / 2000), opt_takerFeeRate = None,
       opt_slippageModel = None, opt_cancelLatencyMs = None, opt_orderLatencyMs = None \<rparr>"

definition limit_test_submit :: fillModelCall where
  "limit_test_submit =
     Call_submitLimitOrder ''buy'' 5 100 ''passive'' (Some 10) 0 (Some ''L1'')"

definition limit_test_order :: order where
  "limit_test_order =
     \<lparr> o_orderId = ''L1'', o_side = ''buy'', o_qty = 5, remainingQty = 5, o_price = 100,
       mode = ''passive'', status = ''open'', createdAt = 0, activeAt = 0,
       expiresAt = Some 10, cancelRequestedAt = None, cancelEffectiveAt = None,
       o_fills = [] \<rparr>"

definition limit_test_event :: "num \<Rightarrow> num \<Rightarrow> num \<Rightarrow> level list \<Rightarrow> marketEvent" where
  "limit_test_event t ask bid levels =
     \<lparr> me_timestamp = t, bestAsk = Some ask, bestBid = Some bid,
       me_orderbook = Some \<lparr>asks = levels, bids = []\<rparr>, me_asks = [], me_bids = [] \<rparr>"

text \<open>
  Engine runs in the manner of \<open>tests/unit/engine_risk_edge_cases.test.js\<close>: a strategy
  that never answers, the default execution model, an initial cash of 1000, and events
  that the adapter supplies.
\<close>

definition noop_strategy :: "unit handler" where
  "noop_strategy s event ctx r = ([], s, r)"

definition test_collaborators :: "(unit, nat) collaborators" where
  "test_collaborators = with_default_execution noop_strategy"

definition test_engine :: "int option \<Rightarrow> (unit, nat) engine" where
  "test_engine seed = new_BacktestEngine seed () 0"

definition test_params :: "string \<Rightarrow> params" where
  "test_params marketType =
     \<lparr> symbol = ''BTC/USDT'', timeframe = ''1m'', market_type = marketType,
       start_date = Some 0, end_date = Some 100, initial_cash = Some 1000,
       random_seed = None, funding_rate = None, funding_interval_ms = None,
       initial_margin_rate = None, maintenance_margin_rate = None,
       liquidation_penalty_rate = None \<rparr>"

text \<open>A funding rate of 0.01 every 10 ms, on a spot market so that no risk event mixes in.\<close>

definition funding_params :: params where
  "funding_params =
     (test_params ''spot'')\<lparr> funding_rate := Some (1 / 100), funding_interval_ms := Some 10 \<rparr>"

definition seeded_params :: params where
  "seeded_params = (test_params ''spot'')\<lparr> random_seed := Some 42 \<rparr>"

definition fill_event :: "num \<Rightarrow> string \<Rightarrow> num \<Rightarrow> num \<Rightarrow> event" where
  "fill_event ts sd q p =
     (new_event Order_filled ts)
       \<lparr> e_price := Some p, e_order_id := Some (Order_id ''x1''), e_side := Some sd,
         e_qty := Some q \<rparr>"

definition candle_event :: "num \<Rightarrow> num \<Rightarrow> event" where
  "candle_event ts p = (new_event Candle ts)\<lparr> e_close := Some p \<rparr>"

definition signal_event :: "num \<Rightarrow> string \<Rightarrow> num \<Rightarrow> num \<Rightarrow> event" where
  "signal_event ts sd q p =
     (new_event Signal_generated ts)\<lparr> e_price := Some p, e_side := Some sd, e_qty := Some q \<rparr>"

definition liquidation_event :: event where
  "liquidation_event =
     (new_event Liquidated 4)
       \<lparr> e_price := Some 90, e_reason := Some ''maintenance_margin_breach'',
         e_penalty := Some 5 \<rparr>"

text \<open>The account after a buy of 1 at 100 out of a cash of 1000.\<close>

definition long_one_state :: accountState where
  "long_one_state =
     \<lparr> cash = 900, equity = 1000, margin = 0, maintenanceMargin = 0, unrealizedPnl = 0,
       lastPrice = Some 100, markPrice = None, position = \<lparr> qty = 1, avgPrice = 100 \<rparr>,
       liquidated = False \<rparr>"

text \<open>
  An engine in mid-run with that account: one with a liquidation event and a later
  candle pending, one with funding configured and the next funding boundary at 11.
\<close>

definition liquidation_test_engine :: "(unit, nat) engine" where
  "liquidation_test_engine =
     (start_run (test_engine None) (test_params ''spot'')
        [liquidation_event, candle_event 5 95])\<lparr> state := long_one_state \<rparr>"

definition funding_test_engine :: "(unit, nat) engine" where
  "funding_test_engine =
     (start_run (test_engine None) funding_params [])
       \<lparr> state := long_one_state, nextFundingTimestamp := Some 11 \<rparr>"

text \<open>What a run's equity series records of the position: quantity and average price.\<close>

definition equity_positions :: "(error + runResult) option \<Rightarrow> (num \<times> num) list" where
  "equity_positions r =
     (case r of
        Some (Inr res) \<Rightarrow> map (\<lambda>e. (position_qty e, position_avg_price e)) (res_equitySeries res)
      | _ \<Rightarrow> [])"

section \<open>Properties of the margin model\<close>

text \<open>
  Claim C10. \<open>unrealizedPnl(position, markPrice) = qty \<times> (markPrice - avgPrice)\<close>, with the
  average price in place of a mark price that is unavailable; the snapshot has
  \<open>positionNotional = |qty| \<times> |markPrice|\<close>, the initial and the maintenance margin are the
  notional times the rate, the rate taken as 0 when negative; and the position
  \<open>{qty: 3, avgPrice: 100}\<close> at mark price 90 with rates 0.1 and 0.05 gives 270, 27, 13.5
  and an unrealized P&L of -30.
\<close>

theorem margin_model_formulas:
  "calculateUnrealizedPnl p (Some m) = qty p * (m - avgPrice p)
   \<and> calculateUnrealizedPnl p None = qty p * (avgPrice p - avgPrice p)
   \<and> positionNotional (calculateMarginSnapshot p (Some m) ir mr) = \<bar>qty p\<bar> * \<bar>m\<bar>
   \<and> initialMargin (calculateMarginSnapshot p (Some m) ir mr) = \<bar>qty p\<bar> * \<bar>m\<bar> * max 0 ir
   \<and> ms_maintenanceMargin (calculateMarginSnapshot p (Some m) ir mr) = \<bar>qty p\<bar> * \<bar>m\<bar> * max 0 mr
   \<and> ms_unrealizedPnl (calculateMarginSnapshot p (Some m) ir mr) = qty p * (m - avgPrice p)
   \<and> calculateMarginSnapshot \<lparr>qty = 3, avgPrice = 100\<rparr> (Some 90) (1 / 10) (1 / 20)
       = \<lparr> ms_markPrice = 90, positionNotional = 270, initialMargin = 27,
           ms_maintenanceMargin = 27 / 2, ms_unrealizedPnl = - 30 \<rparr>"
  by (simp add: calculateUnrealizedPnl_def calculateMarginSnapshot_def Let_def)

section \<open>Properties of the position ledger\<close>

lemma sgn_same_abs_add:
  fixes a b :: rat
  assumes "a = 0 \<or> sgn a = sgn b"
  shows "\<bar>a + b\<bar> = \<bar>a\<bar> + \<bar>b\<bar>"
  using assms
  by (cases "a < 0"; cases "b < 0"; cases "a = 0"; cases "b = 0")
     (auto simp: sgn_if split: if_splits)

text \<open>
  Claim C4. \<open>applyFill\<close> returns the realized P&L delta of the fill. With \<open>signed\<close> the
  signed quantity of the fill: the new quantity is the old one plus \<open>signed\<close>, and the
  delta is added to the realized P&L. For a fill in the position's direction, or into a
  flat position, the delta is \<open>-fee\<close> and the new average price is the blend of the old
  average and the fill price weighted by the two quantities. For a fill against the
  position the delta is the P&L on \<open>min(|prior|, |fill|)\<close> at \<open>fillPrice - avgPrice\<close>,
  signed by the prior direction, minus the fee; the average price stays when the position
  keeps its sign, becomes the fill price when the sign flips, and is 0 when the quantity
  lands at 0.
\<close>

theorem applyFill_realized_delta:
  "let signed = (if side = ''buy'' then \<bar>q\<bar> else - \<bar>q\<bar>);
       prev = qty l;
       avg = avgPrice l;
       (delta, l') = applyFill l side q p f
   in qty l' = prev + signed
      \<and> realizedPnl l' = realizedPnl l + delta
      \<and> (prev = 0 \<or> sgn prev = sgn signed \<longrightarrow>
           delta = - f
           \<and> (prev + signed \<noteq> 0 \<longrightarrow>
                avgPrice l' = (\<bar>prev\<bar> * avg + \<bar>signed\<bar> * p) / (\<bar>prev\<bar> + \<bar>signed\<bar>)))
      \<and> (prev \<noteq> 0 \<and> sgn prev \<noteq> sgn signed \<longrightarrow>
           delta = sgn prev * (p - avg) * min \<bar>prev\<bar> \<bar>signed\<bar> - f
           \<and> (prev + signed \<noteq> 0 \<and> sgn (prev + signed) = sgn prev \<longrightarrow> avgPrice l' = avg)
           \<and> (prev + signed \<noteq> 0 \<and> sgn (prev + signed) \<noteq> sgn prev \<longrightarrow> avgPrice l' = p))
      \<and> (prev + signed = 0 \<longrightarrow> avgPrice l' = 0)"
proof -
  define signed where "signed = (if side = ''buy'' then \<bar>q\<bar> else - \<bar>q\<bar>)"
  show ?thesis
  proof (cases "qty l = 0 \<or> sgn (qty l) = sgn signed")
    case True
    then have "\<bar>qty l + signed\<bar> = \<bar>qty l\<bar> + \<bar>signed\<bar>"
      by (rule sgn_same_abs_add)
    with True show ?thesis
      unfolding applyFill_def Let_def signed_def [symmetric]
      by (auto simp: signed_def)
  next
    case False
    then show ?thesis
      unfolding applyFill_def Let_def signed_def [symmetric]
      by (auto simp: sgn_if split: if_splits)
  qed
qed

text \<open>
  A long position of 2 at 100: buying 2 more at 130 blends the average to 115 and
  realizes only the fee; selling 3 at 110 realizes 2 \<times> 10 minus the fee and flips to a
  short of 1 at 110; selling 2 at 110 lands flat with average 0.
\<close>

theorem applyFill_realized_delta_witness:
  "applyFill \<lparr>qty = 2, avgPrice = 100, realizedPnl = 0\<rparr> ''buy'' 2 130 1
     = (- 1, \<lparr>qty = 4, avgPrice = 115, realizedPnl = - 1\<rparr>)
   \<and> applyFill \<lparr>qty = 2, avgPrice = 100, realizedPnl = 0\<rparr> ''sell'' 3 110 1
     = (19, \<lparr>qty = - 1, avgPrice = 110, realizedPnl = 19\<rparr>)
   \<and> applyFill \<lparr>qty = 2, avgPrice = 100, realizedPnl = 0\<rparr> ''sell'' 2 110 1
     = (19, \<lparr>qty = 0, avgPrice = 0, realizedPnl = 19\<rparr>)"
  using applyFill_realized_delta [of "''buy''" 2 "\<lparr>qty = 2, avgPrice = 100, realizedPnl = 0\<rparr>" 130 1]
    applyFill_realized_delta [of "''sell''" 3 "\<lparr>qty = 2, avgPrice = 100, realizedPnl = 0\<rparr>" 110 1]
    applyFill_realized_delta [of "''sell''" 2 "\<lparr>qty = 2, avgPrice = 100, realizedPnl = 0\<rparr>" 110 1]
  by (auto simp: Let_def split: prod.splits)

section \<open>Properties of the fill model\<close>

lemma decimal_1: "decimal (Suc 0) = ''1''"
  by code_simp

lemma roundToStep_multiple:
  assumes "0 < s"
  shows "roundToStep (of_int k * s) (Some s) = of_int k * s"
proof -
  have "\<lfloor>of_int k * s / s + EPSILON + 1 / 2\<rfloor> = k"
    using assms by (simp add: EPSILON_def floor_eq_iff)
  with assms show ?thesis
    by (simp add: roundToStep_def)
qed

lemma roundToStep_tenths:
  "roundToStep 3 (Some (1 / 10)) = 3"
  "roundToStep 100 (Some (1 / 10)) = 100"
  "roundToStep 102 (Some (1 / 10)) = 102"
  using roundToStep_multiple [of "1 / 10" 30] roundToStep_multiple [of "1 / 10" 1000]
    roundToStep_multiple [of "1 / 10" 1020]
  by simp_all

lemma example_market_order:
  assumes "step = None \<or> step = Some (1 / 10)"
  shows "fst (executeMarketOrder (example_fill_model step) ''buy'' 3 ts None
          \<lparr>asks = [\<lparr>lv_price = 100, lv_qty = 1\<rparr>], bids = []\<rparr>
          \<lparr>mk_lastPrice = Some 101, mk_midPrice = None, mk_price = None,
             mk_spread = sp, mk_avgVolume = av\<rparr>
          (Some (simple_fixed 1)))
   = Executed
       \<lparr> r_status = ''filled'', r_orderId = ''mkt-1'', requestedQty = 3, filledQty = 3,
         r_remainingQty = 0,
         r_fills =
           [\<lparr> f_orderId = ''mkt-1'', f_timestamp = ts, f_side = ''buy'', f_qty = 1,
               f_price = 100, executedNotional = 100, fee = 1 / 10, feeRate = 1 / 1000,
               liquidity = ''taker'', realizedPnlDelta = - (1 / 10) \<rparr>,
            \<lparr> f_orderId = ''mkt-1'', f_timestamp = ts, f_side = ''buy'', f_qty = 2,
               f_price = 102, executedNotional = 204, fee = 51 / 250, feeRate = 1 / 1000,
               liquidity = ''taker'', realizedPnlDelta = - (51 / 250) \<rparr>] \<rparr>"
  using assms
  by (auto simp add: executeMarketOrder_def example_fill_model_def new_FillModel_def
      validateOrder_def roundToLot_def roundToTick_def roundToStep_tenths
      roundToStep_def [of _ None] priceHint_of_def orElse_def bookFill_def
      normalizeBookSide_def booklessFill_def slippageImpact_def applyFill_def
      new_PositionLedger_def Let_def decimal_1)

text \<open>
  Claim C5. A market buy of 3 units against a book with the single ask of 1 unit at 100,
  with tick size 0.1, taker fee 0.1\%, reference price 101 and the fixed slippage +1, is
  filled by exactly two fills, 1 unit at 100 from the book and then 2 units at 102 from
  the fallback, both at the taker rate; its status is \<open>filled\<close> and nothing remains. This
  holds with the lot step 0.1 of the unit test and with no lot step, whatever the
  timestamp, spread and average volume.
\<close>

theorem market_order_book_then_fallback:
  "fst (executeMarketOrder (example_fill_model None) ''buy'' 3 ts None
          \<lparr>asks = [\<lparr>lv_price = 100, lv_qty = 1\<rparr>], bids = []\<rparr>
          \<lparr>mk_lastPrice = Some 101, mk_midPrice = None, mk_price = None,
             mk_spread = sp, mk_avgVolume = av\<rparr>
          (Some (simple_fixed 1)))
   = Executed
       \<lparr> r_status = ''filled'', r_orderId = ''mkt-1'', requestedQty = 3, filledQty = 3,
         r_remainingQty = 0,
         r_fills =
           [\<lparr> f_orderId = ''mkt-1'', f_timestamp = ts, f_side = ''buy'', f_qty = 1,
               f_price = 100, executedNotional = 100, fee = 1 / 10, feeRate = 1 / 1000,
               liquidity = ''taker'', realizedPnlDelta = - (1 / 10) \<rparr>,
            \<lparr> f_orderId = ''mkt-1'', f_timestamp = ts, f_side = ''buy'', f_qty = 2,
               f_price = 102, executedNotional = 204, fee = 51 / 250, feeRate = 1 / 1000,
               liquidity = ''taker'', realizedPnlDelta = - (51 / 250) \<rparr>] \<rparr>
   \<and> fst (executeMarketOrder (example_fill_model (Some (1 / 10))) ''buy'' 3 ts None
          \<lparr>asks = [\<lparr>lv_price = 100, lv_qty = 1\<rparr>], bids = []\<rparr>
          \<lparr>mk_lastPrice = Some 101, mk_midPrice = None, mk_price = None,
             mk_spread = sp, mk_avgVolume = av\<rparr>
          (Some (simple_fixed 1)))
     = fst (executeMarketOrder (example_fill_model None) ''buy'' 3 ts None
          \<lparr>asks = [\<lparr>lv_price = 100, lv_qty = 1\<rparr>], bids = []\<rparr>
          \<lparr>mk_lastPrice = Some 101, mk_midPrice = None, mk_price = None,
             mk_spread = sp, mk_avgVolume = av\<rparr>
          (Some (simple_fixed 1)))"
  using example_market_order [of None ts sp av]
    example_market_order [of "Some (1 / 10)" ts sp av]
  by simp

text \<open>The unit test's call: timestamp 1, spread 2, average volume 10, lot step 0.1.\<close>

theorem market_order_book_then_fallback_witness:
  "(case fst (executeMarketOrder (example_fill_model (Some (1 / 10))) ''buy'' 3 1 None
          \<lparr>asks = [\<lparr>lv_price = 100, lv_qty = 1\<rparr>], bids = []\<rparr>
          \<lparr>mk_lastPrice = Some 101, mk_midPrice = None, mk_price = None,
             mk_spread = Some 2, mk_avgVolume = Some 10\<rparr>
          (Some (simple_fixed 1))) of
      Executed r \<Rightarrow>
        r_status r = ''filled'' \<and> r_remainingQty r = 0 \<and>
        map (\<lambda>f. (f_qty f, f_price f, liquidity f, feeRate f)) (r_fills r)
          = [(1, 100, ''taker'', 1 / 1000), (2, 102, ''taker'', 1 / 1000)]
    | Validation_failed v \<Rightarrow> False)"
  using market_order_book_then_fallback [of 1 "Some 2" "Some 10"]
  by simp

lemma validateOrder_reasons:
  assumes "validateOrder fm q hint = Rejected r a b"
  shows "r \<in> {''invalid_qty'', ''min_qty_violation'', ''max_qty_violation'',
              ''min_notional_violation''}"
  using assms
  by (auto simp: validateOrder_def Let_def split: if_splits option.splits)

text \<open>
  Claim C9, the part that holds as stated. An order whose validation fails is answered
  with the rejection that \<open>_validateOrder\<close> built, with one of the four reasons, by
  \<open>executeMarketOrder\<close> and by \<open>submitLimitOrder\<close> alike; the model (ledger, orders and
  id counter) is returned unchanged, and the answer carries no fills. Amended last part:
  an order that passes the quantity checks (rounded quantity positive and within the
  configured bounds) and whose rounded quantity times the price hint is below the
  configured minimum notional is rejected with reason \<open>min_notional_violation\<close>.
\<close>

theorem validation_failure_is_rejection:
  "(validateOrder fm q (priceHint_of m) = Rejected r a b \<longrightarrow>
      r \<in> {''invalid_qty'', ''min_qty_violation'', ''max_qty_violation'',
            ''min_notional_violation''}
      \<and> executeMarketOrder fm side q ts oid bk m slip = (Validation_failed (Rejected r a b), fm))
   \<and> (validateOrder fm q (Some (roundToTick price (tickSize fm))) = Rejected r' a' b' \<longrightarrow>
      r' \<in> {''invalid_qty'', ''min_qty_violation'', ''max_qty_violation'',
             ''min_notional_violation''}
      \<and> submitLimitOrder fm side q price md ttl ts oid = (Submit_rejected (Rejected r' a' b'), fm))
   \<and> (0 < roundToLot q (stepSize fm)
      \<and> (\<forall>lo. minQty fm = Some lo \<longrightarrow> lo \<le> roundToLot q (stepSize fm))
      \<and> (\<forall>hi. maxQty fm = Some hi \<longrightarrow> roundToLot q (stepSize fm) \<le> hi)
      \<and> minNotional fm = Some mn \<and> roundToLot q (stepSize fm) * p < mn \<longrightarrow>
      validateOrder fm q (Some p)
        = Rejected ''min_notional_violation'' (Some (roundToLot q (stepSize fm)))
            (Some (roundToLot q (stepSize fm) * p)))"
proof (intro conjI impI)
  assume "validateOrder fm q (priceHint_of m) = Rejected r a b"
  then show "executeMarketOrder fm side q ts oid bk m slip = (Validation_failed (Rejected r a b), fm)"
    by (simp add: executeMarketOrder_def)
next
  assume "validateOrder fm q (Some (roundToTick price (tickSize fm))) = Rejected r' a' b'"
  then show "submitLimitOrder fm side q price md ttl ts oid = (Submit_rejected (Rejected r' a' b'), fm)"
    by (simp add: submitLimitOrder_def Let_def)
next
  assume "0 < roundToLot q (stepSize fm)
      \<and> (\<forall>lo. minQty fm = Some lo \<longrightarrow> lo \<le> roundToLot q (stepSize fm))
      \<and> (\<forall>hi. maxQty fm = Some hi \<longrightarrow> roundToLot q (stepSize fm) \<le> hi)
      \<and> minNotional fm = Some mn \<and> roundToLot q (stepSize fm) * p < mn"
  then show "validateOrder fm q (Some p)
        = Rejected ''min_notional_violation'' (Some (roundToLot q (stepSize fm)))
            (Some (roundToLot q (stepSize fm) * p))"
    by (auto simp: validateOrder_def Let_def split: option.splits)
qed (auto dest: validateOrder_reasons)

text \<open>
  With a minimum quantity of 1 and a minimum notional of 100: a market buy of 2 at a last
  price of 10 is rejected for its notional of 20, a limit buy of 0.5 for its quantity.
\<close>

theorem validation_failure_is_rejection_witness:
  "executeMarketOrder bounded_fill_model ''buy'' 2 1 None \<lparr>asks = [], bids = []\<rparr>
       \<lparr>mk_lastPrice = Some 10, mk_midPrice = None, mk_price = None,
          mk_spread = None, mk_avgVolume = None\<rparr> None
     = (Validation_failed (Rejected ''min_notional_violation'' (Some 2) (Some 20)),
        bounded_fill_model)
   \<and> submitLimitOrder bounded_fill_model ''buy'' (1 / 2) 100 ''passive'' None 1 None
     = (Submit_rejected (Rejected ''min_qty_violation'' (Some (1 / 2)) None),
        bounded_fill_model)"
proof -
  let ?m = "\<lparr>mk_lastPrice = Some 10, mk_midPrice = None, mk_price = None,
          mk_spread = None, mk_avgVolume = None\<rparr>"
  have h: "priceHint_of ?m = Some 10"
    by (simp add: priceHint_of_def)
  have lot: "roundToLot 2 (stepSize bounded_fill_model) = 2"
    by (simp add: bounded_fill_model_def new_FillModel_def roundToLot_def roundToStep_def)
  have a: "0 < roundToLot 2 (stepSize bounded_fill_model)
      \<and> (\<forall>lo. minQty bounded_fill_model = Some lo \<longrightarrow> lo \<le> roundToLot 2 (stepSize bounded_fill_model))
      \<and> (\<forall>hi. maxQty bounded_fill_model = Some hi \<longrightarrow> roundToLot 2 (stepSize bounded_fill_model) \<le> hi)
      \<and> minNotional bounded_fill_model = Some 100
      \<and> roundToLot 2 (stepSize bounded_fill_model) * 10 < 100"
    unfolding lot by (simp add: bounded_fill_model_def new_FillModel_def)
  have v1: "validateOrder bounded_fill_model 2 (priceHint_of ?m)
            = Rejected ''min_notional_violation'' (Some 2) (Some 20)"
    using validation_failure_is_rejection
            [where fm = bounded_fill_model and q = 2 and mn = 100 and p = 10] a h lot
    by simp
  have v2: "validateOrder bounded_fill_model (1 / 2)
              (Some (roundToTick 100 (tickSize bounded_fill_model)))
            = Rejected ''min_qty_violation'' (Some (1 / 2)) None"
    by (simp add: validateOrder_def bounded_fill_model_def new_FillModel_def
        roundToLot_def roundToTick_def roundToStep_def)
  show ?thesis
    using validation_failure_is_rejection
            [where fm = bounded_fill_model and q = 2 and m = ?m
               and r = "''min_notional_violation''" and a = "Some 2" and b = "Some 20"
               and side = "''buy''" and ts = 1 and oid = None
               and bk = "\<lparr>asks = [], bids = []\<rparr>" and slip = None] v1
      validation_failure_is_rejection
            [where fm = bounded_fill_model and q = "1 / 2" and price = 100
               and r' = "''min_qty_violation''" and a' = "Some (1 / 2)" and b' = None
               and side = "''buy''" and md = "''passive''" and ttl = None and ts = 1
               and oid = None] v2
    by simp
qed

text \<open>
  Claim C9 as stated fails where an earlier check fires: a market buy of 0.5 at a last
  price of 100 has a notional of 50, below the minimum of 100, and is rejected with
  reason \<open>min_qty_violation\<close>.
\<close>

theorem min_notional_reason_counterexample:
  "minNotional bounded_fill_model = Some 100
   \<and> roundToLot (1 / 2) (stepSize bounded_fill_model) * 100 < 100
   \<and> fst (executeMarketOrder bounded_fill_model ''buy'' (1 / 2) 1 None \<lparr>asks = [], bids = []\<rparr>
       \<lparr>mk_lastPrice = Some 100, mk_midPrice = None, mk_price = None,
          mk_spread = None, mk_avgVolume = None\<rparr> None)
     = Validation_failed (Rejected ''min_qty_violation'' (Some (1 / 2)) None)"
  by (simp add: executeMarketOrder_def validateOrder_def priceHint_of_def bounded_fill_model_def new_FillModel_def roundToLot_def roundToStep_def)


lemma roundToStep_mono:
  assumes "x \<le> y"
  shows "roundToStep x step \<le> roundToStep y step"
proof (cases step)
  case None
  with assms show ?thesis by (simp add: roundToStep_def)
next
  case (Some s)
  show ?thesis
  proof (cases "s \<le> 0")
    case True
    with Some assms show ?thesis by (simp add: roundToStep_def)
  next
    case False
    then have "x / s \<le> y / s"
      using assms by (simp add: divide_right_mono)
    then have "\<lfloor>x / s + EPSILON + 1 / 2\<rfloor> \<le> \<lfloor>y / s + EPSILON + 1 / 2\<rfloor>"
      by (intro floor_mono) simp
    then have "(of_int \<lfloor>x / s + EPSILON + 1 / 2\<rfloor> :: rat) \<le> of_int \<lfloor>y / s + EPSILON + 1 / 2\<rfloor>"
      by simp
    with False Some show ?thesis
      by (simp add: roundToStep_def mult_right_mono)
  qed
qed

lemma roundToStep_idem: "roundToStep (roundToStep v step) step = roundToStep v step"
proof (cases step)
  case None
  then show ?thesis by (simp add: roundToStep_def)
next
  case (Some s)
  show ?thesis
  proof (cases "s \<le> 0")
    case True
    with Some show ?thesis by (simp add: roundToStep_def)
  next
    case False
    then have "roundToStep v (Some s) = of_int \<lfloor>v / s + EPSILON + 1 / 2\<rfloor> * s"
      by (simp add: roundToStep_def)
    with False Some roundToStep_multiple [of s "\<lfloor>v / s + EPSILON + 1 / 2\<rfloor>"]
    show ?thesis by simp
  qed
qed

text \<open>The loop over the levels changes nothing of the model but its ledger.\<close>

lemma bookFill_levels_ledger_only:
  assumes "bookFill_levels side limit ts oid ft lvs (fm, remaining, fills) = (fm', remaining', fills')"
  shows "fm' = fm\<lparr>ledger := ledger fm'\<rparr>"
  using assms
proof (induction lvs arbitrary: fm remaining fills)
  case Nil
  then show ?case by simp
next
  case (Cons lv lvs)
  show ?case
  proof (cases "\<not> (if side = ''buy''
             then (case limit of None \<Rightarrow> True | Some lp \<Rightarrow> lv_price lv \<le> lp)
             else (case limit of None \<Rightarrow> True | Some lp \<Rightarrow> lv_price lv \<ge> lp)) \<or> remaining \<le> 0")
    case True
    then have "bookFill_levels side limit ts oid ft lvs (fm, remaining, fills) = (fm', remaining', fills')"
      using Cons.prems by (auto simp: Let_def split: if_splits)
    from Cons.IH [OF this] show ?thesis .
  next
    case False
    then obtain l r f where
      "bookFill_levels side limit ts oid ft lvs (fm\<lparr>ledger := l\<rparr>, r, f) = (fm', remaining', fills')"
      using Cons.prems by (auto simp: Let_def split: if_splits prod.splits)
    from Cons.IH [OF this] have "fm' = fm\<lparr>ledger := l, ledger := ledger fm'\<rparr>" .
    then show ?thesis by simp
  qed
qed

lemma bookFill_ledger_only:
  assumes "bookFill fm side q bk limit ts oid ft = (fm', fills, remaining)"
  shows "fm' = fm\<lparr>ledger := ledger fm'\<rparr>"
  using assms bookFill_levels_ledger_only
  by (fastforce simp: bookFill_def Let_def split: prod.splits)

lemma bookFill_levels_fills:
  assumes "bookFill_levels side (Some lp) ts oid ft lvs (fm, remaining, fills) = (fm', remaining', fills')"
    and "roundToTick lp (tickSize fm) = lp"
    and "\<forall>f \<in> set fills.
           (if side = ''buy'' then f_price f \<le> lp else lp \<le> f_price f)
           \<and> feeRate f = (if ft then fee_taker fm else fee_maker fm)
           \<and> fee f = f_qty f * f_price f * (if ft then fee_taker fm else fee_maker fm)
           \<and> liquidity f = (if ft then ''taker'' else ''maker'')"
  shows "\<forall>f \<in> set fills'.
           (if side = ''buy'' then f_price f \<le> lp else lp \<le> f_price f)
           \<and> feeRate f = (if ft then fee_taker fm else fee_maker fm)
           \<and> fee f = f_qty f * f_price f * (if ft then fee_taker fm else fee_maker fm)
           \<and> liquidity f = (if ft then ''taker'' else ''maker'')"
  using assms
proof (induction lvs arbitrary: fm remaining fills)
  case Nil
  then show ?case by simp
next
  case (Cons lv lvs)
  show ?case
  proof (cases "\<not> (if side = ''buy'' then lv_price lv \<le> lp else lp \<le> lv_price lv) \<or> remaining \<le> 0")
    case True
    then have "bookFill_levels side (Some lp) ts oid ft lvs (fm, remaining, fills) = (fm', remaining', fills')"
      using Cons.prems(1) by (auto simp: Let_def split: if_splits)
    from Cons.IH [OF this Cons.prems(2) Cons.prems(3)] show ?thesis .
  next
    case False
    define executedQty where "executedQty = min remaining (lv_qty lv)"
    define executedPrice where "executedPrice = roundToTick (lv_price lv) (tickSize fm)"
    define rate where "rate = (if ft then fee_taker fm else fee_maker fm)"
    define res where "res = applyFill (ledger fm) side executedQty executedPrice (executedQty * executedPrice * rate)"
    define nf where "nf = \<lparr> f_orderId = oid, f_timestamp = ts, f_side = side,
                             f_qty = executedQty, f_price = executedPrice,
                             executedNotional = executedQty * executedPrice, fee = executedQty * executedPrice * rate, feeRate = rate,
                             liquidity = (if ft then ''taker'' else ''maker''),
                             realizedPnlDelta = fst res \<rparr>"
    have step: "bookFill_levels side (Some lp) ts oid ft lvs
                  (fm\<lparr>ledger := snd res\<rparr>, remaining - executedQty, fills @ [nf]) = (fm', remaining', fills')"
      using Cons.prems(1) False
      by (auto simp: Let_def executedQty_def executedPrice_def rate_def res_def nf_def split: if_splits prod.splits)
    have price: "if side = ''buy'' then executedPrice \<le> lp else lp \<le> executedPrice"
      using False Cons.prems(2) roundToStep_mono [of "lv_price lv" lp "tickSize fm"]
        roundToStep_mono [of lp "lv_price lv" "tickSize fm"]
      by (auto simp: executedPrice_def roundToTick_def split: if_splits)
    have "\<forall>f \<in> set (fills @ [nf]).
           (if side = ''buy'' then f_price f \<le> lp else lp \<le> f_price f)
           \<and> feeRate f = (if ft then fee_taker (fm\<lparr>ledger := snd res\<rparr>) else fee_maker (fm\<lparr>ledger := snd res\<rparr>))
           \<and> fee f = f_qty f * f_price f * (if ft then fee_taker (fm\<lparr>ledger := snd res\<rparr>) else fee_maker (fm\<lparr>ledger := snd res\<rparr>))
           \<and> liquidity f = (if ft then ''taker'' else ''maker'')"
      using Cons.prems(3) price by (auto simp: nf_def rate_def)
    from Cons.IH [OF step _ this] Cons.prems(2) show ?thesis
      by simp
  qed
qed

text \<open>One order of the map, met by a market event.\<close>

lemma processOrder_evaluation:
  assumes "processOrder fm me ord = (fm', ord', fills, cancels)"
    and "status ord = ''open''"
    and "roundToTick (o_price ord) (tickSize fm) = o_price ord"
  shows
    "if me_timestamp me < activeAt ord then
       fm' = fm \<and> ord' = ord \<and> fills = [] \<and> cancels = []
     else if \<exists>c. cancelEffectiveAt ord = Some c \<and> c \<le> me_timestamp me then
       fm' = fm \<and> ord' = ord\<lparr>status := ''cancelled''\<rparr> \<and> fills = []
       \<and> cancels = [\<lparr> c_orderId = o_orderId ord, c_reason = ''user_cancel'',
                       c_timestamp = me_timestamp me \<rparr>]
     else if \<exists>x. expiresAt ord = Some x \<and> x \<le> me_timestamp me then
       fm' = fm \<and> ord' = ord\<lparr>status := ''cancelled''\<rparr> \<and> fills = []
       \<and> cancels = [\<lparr> c_orderId = o_orderId ord, c_reason = ''ttl_timeout'',
                       c_timestamp = me_timestamp me \<rparr>]
     else
       cancels = []
       \<and> (mode ord = ''passive''
            \<and> \<not> (if o_side ord = ''buy''
                   then \<exists>a. bestAsk me = Some a \<and> a \<le> o_price ord
                   else \<exists>b. bestBid me = Some b \<and> o_price ord \<le> b) \<longrightarrow>
            fm' = fm \<and> ord' = ord \<and> fills = [])
       \<and> (mode ord \<noteq> ''passive''
            \<or> (if o_side ord = ''buy''
                then \<exists>a. bestAsk me = Some a \<and> a \<le> o_price ord
                else \<exists>b. bestBid me = Some b \<and> o_price ord \<le> b) \<longrightarrow>
            fills = fst (snd (bookFill fm (o_side ord) (remainingQty ord)
                (case me_orderbook me of Some b \<Rightarrow> b
                 | None \<Rightarrow> \<lparr>asks = me_asks me, bids = me_bids me\<rparr>)
                (Some (o_price ord)) (me_timestamp me) (o_orderId ord)
                (mode ord = ''aggressive''))))
       \<and> (\<forall>f \<in> set fills.
             (if o_side ord = ''buy'' then f_price f \<le> o_price ord
              else o_price ord \<le> f_price f)
             \<and> feeRate f = (if mode ord = ''aggressive'' then fee_taker fm else fee_maker fm)
             \<and> fee f = f_qty f * f_price f
                         * (if mode ord = ''aggressive'' then fee_taker fm else fee_maker fm)
             \<and> liquidity f = (if mode ord = ''aggressive'' then ''taker'' else ''maker''))"
proof -
  let ?bk = "case me_orderbook me of Some b \<Rightarrow> b
             | None \<Rightarrow> \<lparr>asks = me_asks me, bids = me_bids me\<rparr>"
  let ?ft = "mode ord = ''aggressive''"
  obtain fm1 fs rm where bf:
    "bookFill fm (o_side ord) (remainingQty ord) ?bk (Some (o_price ord))
       (me_timestamp me) (o_orderId ord) ?ft = (fm1, fs, rm)"
    by (cases "bookFill fm (o_side ord) (remainingQty ord) ?bk (Some (o_price ord))
       (me_timestamp me) (o_orderId ord) ?ft") auto
  have fs_ok: "\<forall>f \<in> set fs.
             (if o_side ord = ''buy'' then f_price f \<le> o_price ord
              else o_price ord \<le> f_price f)
             \<and> feeRate f = (if ?ft then fee_taker fm else fee_maker fm)
             \<and> fee f = f_qty f * f_price f * (if ?ft then fee_taker fm else fee_maker fm)
             \<and> liquidity f = (if ?ft then ''taker'' else ''maker'')"
  proof -
    obtain lvs where lv: "bookFill_levels (o_side ord) (Some (o_price ord)) (me_timestamp me)
        (o_orderId ord) ?ft lvs (fm, remainingQty ord, []) = (fm1, rm, fs)"
      using bf by (auto simp: bookFill_def Let_def split: prod.splits)
    show ?thesis
      using bookFill_levels_fills [OF lv assms(3)] by simp
  qed
  have ex: "executeLimitOrder fm ord me =
      (if \<not> crossed ord me \<and> mode ord = ''passive'' then (fm, ord, [])
       else if fs \<noteq> [] then
         (fm1, ord\<lparr> o_fills := o_fills ord @ fs, remainingQty := rm,
                    status := (if rm \<le> 0 then ''filled'' else status ord) \<rparr>, fs)
       else (fm1, ord, fs))"
    using bf by (simp add: executeLimitOrder_def Let_def)
  have cr: "crossed ord me \<longleftrightarrow>
            (if o_side ord = ''buy''
             then \<exists>a. bestAsk me = Some a \<and> a \<le> o_price ord
             else \<exists>b. bestBid me = Some b \<and> o_price ord \<le> b)"
    by (auto simp: crossed_def split: option.splits)
  show ?thesis
    using assms(1,2) fs_ok bf
    by (auto simp: processOrder_def ex cr split: if_splits option.splits)
qed

lemma processOrder_frame:
  assumes "processOrder fm me ord = (fm', ord', fills, cancels)"
  shows "fm' = fm\<lparr>ledger := ledger fm'\<rparr> \<and> o_price ord' = o_price ord"
proof -
  have "executeLimitOrder fm ord me = (a, b, c) \<Longrightarrow>
          a = fm\<lparr>ledger := ledger a\<rparr> \<and> o_price b = o_price ord" for a b c
    using bookFill_ledger_only
    by (fastforce simp: executeLimitOrder_def Let_def split: if_splits prod.splits)
  with assms show ?thesis
    by (auto simp: processOrder_def split: if_splits prod.splits)
qed


lemma processOrders_frame:
  assumes "processOrders fm me os = (fm', os', fills, cancels)"
  shows "fm' = fm\<lparr>ledger := ledger fm'\<rparr>
         \<and> (\<forall>(k, od') \<in> set os'. \<exists>od. (k, od) \<in> set os \<and> o_price od' = o_price od)"
  using assms
proof (induction os arbitrary: fm fm' os' fills cancels)
  case Nil
  then show ?case by simp
next
  case (Cons a os)
  obtain k0 o0 where a: "a = (k0, o0)" by (cases a)
  obtain fm1 o0' f0 c0 where p: "processOrder fm me o0 = (fm1, o0', f0, c0)"
    by (cases "processOrder fm me o0") auto
  obtain fm2 rest' f1 c1 where r: "processOrders fm1 me os = (fm2, rest', f1, c1)"
    by (cases "processOrders fm1 me os") auto
  from Cons.prems a p r have res: "fm' = fm2" "os' = (k0, o0') # rest'"
    by simp_all
  from processOrder_frame [OF p] have f1: "fm1 = fm\<lparr>ledger := ledger fm1\<rparr>"
    and pr: "o_price o0' = o_price o0" by (rule conjunct1, rule conjunct2)
  from Cons.IH [OF r] have f2: "fm2 = fm1\<lparr>ledger := ledger fm2\<rparr>"
    and rest: "\<forall>(k, od') \<in> set rest'. \<exists>od. (k, od) \<in> set os \<and> o_price od' = o_price od"
    by (rule conjunct1, rule conjunct2)
  have "fm2 = fm\<lparr>ledger := ledger fm2\<rparr>"
    by (subst f2, subst f1) simp
  then have "fm' = fm\<lparr>ledger := ledger fm'\<rparr>"
    unfolding res(1) .
  moreover have "\<forall>(k, od') \<in> set os'. \<exists>od. (k, od) \<in> set (a # os) \<and> o_price od' = o_price od"
    unfolding res(2) a using pr rest by fastforce
  ultimately show ?case by (rule conjI)
qed

lemma processOrders_nth:
  assumes "processOrders fm me os = (fm', os', fills, cancels)"
    and "i < length os"
    and "os ! i = (k, ord)"
  shows "\<exists>l fmi ord' fs cs pre post cpre cpost.
           processOrder (fm\<lparr>ledger := l\<rparr>) me ord = (fmi, ord', fs, cs)
           \<and> length os' = length os \<and> os' ! i = (k, ord')
           \<and> fills = pre @ fs @ post \<and> cancels = cpre @ cs @ cpost"
  using assms
proof (induction os arbitrary: fm fm' os' fills cancels i)
  case Nil
  then show ?case by simp
next
  case (Cons a os)
  obtain k0 o0 where a: "a = (k0, o0)" by (cases a)
  obtain fm1 o0' f0 c0 where p: "processOrder fm me o0 = (fm1, o0', f0, c0)"
    by (cases "processOrder fm me o0") auto
  obtain fm2 rest' f1 c1 where r: "processOrders fm1 me os = (fm2, rest', f1, c1)"
    by (cases "processOrders fm1 me os") auto
  from Cons.prems(1) a p r have res: "os' = (k0, o0') # rest'" "fills = f0 @ f1" "cancels = c0 @ c1"
    by simp_all
  have len: "length rest' = length os"
    using r by (induction os arbitrary: fm1 fm2 rest' f1 c1) (auto split: prod.splits)
  show ?case
  proof (cases i)
    case 0
    with Cons.prems(3) a have k: "k = k0" "ord = o0" by simp_all
    with p have "processOrder (fm\<lparr>ledger := ledger fm\<rparr>) me ord = (fm1, o0', f0, c0)"
      by simp
    moreover have "fills = [] @ f0 @ f1" "cancels = [] @ c0 @ c1"
      using res by simp_all
    moreover have "os' ! i = (k, o0')" "length os' = length (a # os)"
      using res 0 len k by simp_all
    ultimately show ?thesis
      by (intro exI [of _ "ledger fm"] exI [of _ fm1] exI [of _ o0'] exI [of _ f0]
          exI [of _ c0] exI [of _ "[]"] exI [of _ f1] exI [of _ c1]) simp
  next
    case (Suc j)
    with Cons.prems(2,3) have "j < length os" "os ! j = (k, ord)" by simp_all
    from Cons.IH [OF r this] obtain l fmi ord' fs cs pre post cpre cpost where
      ih: "processOrder (fm1\<lparr>ledger := l\<rparr>) me ord = (fmi, ord', fs, cs)"
        "rest' ! j = (k, ord')" "f1 = pre @ fs @ post" "c1 = cpre @ cs @ cpost"
      by blast
    from processOrder_frame [OF p] have f1: "fm1 = fm\<lparr>ledger := ledger fm1\<rparr>" by (rule conjunct1)
    have "fm1\<lparr>ledger := l\<rparr> = (fm\<lparr>ledger := ledger fm1\<rparr>)\<lparr>ledger := l\<rparr>"
      by (rule arg_cong [where f = "\<lambda>m. m\<lparr>ledger := l\<rparr>"]) (rule f1)
    then have "fm1\<lparr>ledger := l\<rparr> = fm\<lparr>ledger := l\<rparr>"
      by simp
    with ih(1) have "processOrder (fm\<lparr>ledger := l\<rparr>) me ord = (fmi, ord', fs, cs)" by simp
    moreover have "fills = (f0 @ pre) @ fs @ post" "cancels = (c0 @ cpre) @ cs @ cpost"
      using res ih by simp_all
    moreover have "os' ! i = (k, ord')" "length os' = length (a # os)"
      using res Suc ih len by simp_all
    ultimately show ?thesis
      by (intro exI [of _ l] exI [of _ fmi] exI [of _ ord'] exI [of _ fs]
          exI [of _ cs] exI [of _ "f0 @ pre"] exI [of _ post] exI [of _ "c0 @ cpre"]
          exI [of _ cpost]) simp
  qed
qed


lemma set_update_subset: "set (AList.update k v al) \<subseteq> insert (k, v) (set al)"
  by (induction al) (auto simp: AList.update.simps)

lemma executeMarketOrder_frame:
  "orders (snd (executeMarketOrder fm side q ts oid bk m slip)) = orders fm
   \<and> tickSize (snd (executeMarketOrder fm side q ts oid bk m slip)) = tickSize fm"
proof (cases "validateOrder fm q (priceHint_of m)")
  case (Rejected r a b)
  then show ?thesis by (simp add: executeMarketOrder_def)
next
  case (Ok rq)
  have bl: "fst (booklessFill f0 sd q0 m0 o0 t0 sl) = f0\<lparr>ledger := ledger (fst (booklessFill f0 sd q0 m0 o0 t0 sl))\<rparr>"
    for f0 sd q0 m0 o0 t0 sl
    by (simp add: booklessFill_def Let_def split: option.splits prod.splits)
  have bf: "fst (bookFill f0 sd q0 b0 lim t0 o0 ft) = f0\<lparr>ledger := ledger (fst (bookFill f0 sd q0 b0 lim t0 o0 ft))\<rparr>"
    for f0 sd q0 b0 lim t0 o0 ft
    using bookFill_ledger_only [of f0 sd q0 b0 lim t0 o0 ft]
    by (cases "bookFill f0 sd q0 b0 lim t0 o0 ft") simp
  have keep: "orders b = orders a \<and> tickSize b = tickSize a" if "b = a\<lparr>ledger := ledger b\<rparr>" for a b :: FillModel
    by (subst that, subst (2) that) simp
  have k1: "orders (fst (bookFill f0 sd q0 b0 lim t0 o0 ft)) = orders f0
            \<and> tickSize (fst (bookFill f0 sd q0 b0 lim t0 o0 ft)) = tickSize f0"
    for f0 sd q0 b0 lim t0 o0 ft
    by (rule keep) (rule bf)
  have k2: "orders (fst (booklessFill f0 sd q0 m0 o0 t0 sl)) = orders f0
            \<and> tickSize (fst (booklessFill f0 sd q0 m0 o0 t0 sl)) = tickSize f0"
    for f0 sd q0 m0 o0 t0 sl
    by (rule keep) (rule bl)
  show ?thesis
    using Ok k1 k2
    by (auto simp: executeMarketOrder_def Let_def split: prod.splits option.splits if_splits
        dest!: arg_cong [where f = fst])
qed


lemma submitLimitOrder_accepted:
  assumes "validateOrder fm q (Some (roundToTick price (tickSize fm))) = Ok rq"
  shows "\<exists>k ord. orders (snd (submitLimitOrder fm side q price md ttl ts oid))
                    = AList.update k ord (orders fm)
                  \<and> o_price ord = roundToTick price (tickSize fm)
                  \<and> tickSize (snd (submitLimitOrder fm side q price md ttl ts oid)) = tickSize fm"
proof (cases "oid = None \<or> oid = Some []")
  case True
  with assms show ?thesis
    by (intro exI [of _ "''lmt-'' @ decimal (next_id fm)"]
          exI [of _ "\<lparr> o_orderId = ''lmt-'' @ decimal (next_id fm), o_side = side, o_qty = rq,
                          remainingQty = rq, o_price = roundToTick price (tickSize fm), mode = md,
                          status = ''open'', createdAt = ts,
                          activeAt = ts + orderLatencyMs fm,
                          expiresAt = (case ttl of Some t \<Rightarrow> Some (ts + t) | None \<Rightarrow> None),
                          cancelRequestedAt = None, cancelEffectiveAt = None,
                          o_fills = [] \<rparr>"])
       (auto simp: submitLimitOrder_def Let_def)
next
  case False
  then obtain s where "oid = Some s" "s \<noteq> []" by (cases oid) auto
  with assms show ?thesis
    by (intro exI [of _ s]
          exI [of _ "\<lparr> o_orderId = s, o_side = side, o_qty = rq,
                          remainingQty = rq, o_price = roundToTick price (tickSize fm), mode = md,
                          status = ''open'', createdAt = ts,
                          activeAt = ts + orderLatencyMs fm,
                          expiresAt = (case ttl of Some t \<Rightarrow> Some (ts + t) | None \<Rightarrow> None),
                          cancelRequestedAt = None, cancelEffectiveAt = None,
                          o_fills = [] \<rparr>"])
       (auto simp: submitLimitOrder_def Let_def)
qed

text \<open>
  Every order in the map of a model has its limit price on the tick grid: the map is
  empty at first, \<open>submitLimitOrder\<close> stores rounded prices, and no call changes the
  price of a stored order or the tick size.
\<close>

lemma after_call_aligned:
  assumes "\<forall>(k, od) \<in> set (orders fm). roundToTick (o_price od) (tickSize fm) = o_price od"
  shows "\<forall>(k, od) \<in> set (orders (after_call fm call)).
           roundToTick (o_price od) (tickSize (after_call fm call)) = o_price od"
proof (cases call)
  case (Call_executeMarketOrder side q ts oid bk m slip)
  with assms executeMarketOrder_frame [of fm side q ts oid bk m slip] show ?thesis
    by simp
next
  case (Call_submitLimitOrder side q price md ttl ts oid)
  show ?thesis
  proof (cases "validateOrder fm q (Some (roundToTick price (tickSize fm)))")
    case (Rejected r a b)
    with assms Call_submitLimitOrder show ?thesis
      by (simp add: submitLimitOrder_def Let_def)
  next
    case (Ok rq)
    from submitLimitOrder_accepted [OF Ok] obtain k ord where
      res: "orders (snd (submitLimitOrder fm side q price md ttl ts oid))
              = AList.update k ord (orders fm)"
      and pr: "o_price ord = roundToTick price (tickSize fm)"
      and tk: "tickSize (snd (submitLimitOrder fm side q price md ttl ts oid)) = tickSize fm"
      by blast
    have "roundToTick (o_price ord) (tickSize fm) = o_price ord"
      by (simp add: pr roundToTick_def roundToStep_idem)
    with assms set_update_subset [of k ord "orders fm"] show ?thesis
      unfolding Call_submitLimitOrder after_call.simps res tk by blast
  qed
next
  case (Call_requestCancel oid ts lat)
  show ?thesis
  proof (cases "map_of (orders fm) oid")
    case None
    with assms Call_requestCancel show ?thesis by (simp add: requestCancel_def)
  next
    case (Some ord)
    then have mem: "(oid, ord) \<in> set (orders fm)" by (rule map_of_SomeD)
    show ?thesis
    proof (cases "status ord \<noteq> ''open''")
      case True
      with assms Some Call_requestCancel show ?thesis by (simp add: requestCancel_def)
    next
      case False
      then obtain ord' where
        res: "orders (snd (requestCancel fm oid ts lat)) = AList.update oid ord' (orders fm)"
        and pr: "o_price ord' = o_price ord"
        and tk: "tickSize (snd (requestCancel fm oid ts lat)) = tickSize fm"
        using Some by (auto simp: requestCancel_def Let_def)
      from assms mem pr have "roundToTick (o_price ord') (tickSize fm) = o_price ord'"
        by auto
      with assms set_update_subset [of oid ord' "orders fm"] show ?thesis
        unfolding Call_requestCancel after_call.simps res tk by blast
    qed
  qed
next
  case (Call_processMarketEvent me)
  obtain fm' os fills cancels where
    p: "processOrders fm me (orders fm) = (fm', os, fills, cancels)"
    by (cases "processOrders fm me (orders fm)") auto
  from processOrders_frame [OF p] have f: "fm' = fm\<lparr>ledger := ledger fm'\<rparr>"
    and pr: "\<forall>(k, od') \<in> set os. \<exists>od. (k, od) \<in> set (orders fm) \<and> o_price od' = o_price od"
    by (rule conjunct1, rule conjunct2)
  have tk: "tickSize fm' = tickSize fm"
    by (subst f) simp
  have res: "after_call fm call = fm'\<lparr>orders := os\<rparr>"
    using p Call_processMarketEvent by (simp add: processMarketEvent_def)
  from assms pr show ?thesis
    unfolding res using tk by fastforce
qed

lemma after_calls_aligned:
  "\<forall>(k, od) \<in> set (orders (after_calls options calls)).
     roundToTick (o_price od) (tickSize (after_calls options calls)) = o_price od"
proof (induction calls rule: rev_induct)
  case Nil
  then show ?case by (simp add: after_calls_def new_FillModel_def)
next
  case (snoc call calls)
  have "after_calls options (calls @ [call]) = after_call (after_calls options calls) call"
    by (simp add: after_calls_def)
  with after_call_aligned [OF snoc.IH] show ?case by simp
qed

text \<open>
  Claim C6. Take a fill model in any state its public methods can bring it to, a market
  event, and any open order of the map; \<open>processMarketEvent\<close> runs over the orders in
  insertion order, and the order's share of the outcome (its fills \<open>fs\<close> and
  cancellations \<open>cs\<close>, which stand in the returned lists, and the order \<open>ord'\<close> left in
  the map at the same place) is this. Before its activation time the order is left
  alone. From then on: a cancellation whose effective time has come cancels it with
  reason \<open>user_cancel\<close>; else an expiry that has come cancels it with reason
  \<open>ttl_timeout\<close>; else a passive order that is not crossed (best ask at or below the
  limit for a buy, best bid at or above it for a sell) gets no fill, a crossed or
  non-passive one, so every aggressive one, gets exactly the fills of \<open>_bookFill\<close> on
  the event's book with its limit price (the ledger being what the orders before it
  left), and every fill is at the limit or better, charged the maker rate on its
  notional for a passive order and the taker rate for an aggressive one.
\<close>

theorem limit_order_evaluation:
  assumes "fm = after_calls options calls"
    and "processMarketEvent fm me = ((fills, cancels), fm')"
    and "i < length (orders fm)"
    and "orders fm ! i = (key, ord)"
    and "status ord = ''open''"
  shows "\<exists>ord' fs cs pre post cpre cpost.
    i < length (orders fm') \<and> orders fm' ! i = (key, ord')
    \<and> fills = pre @ fs @ post \<and> cancels = cpre @ cs @ cpost
    \<and> (if me_timestamp me < activeAt ord then
         ord' = ord \<and> fs = [] \<and> cs = []
       else if \<exists>c. cancelEffectiveAt ord = Some c \<and> c \<le> me_timestamp me then
         ord' = ord\<lparr>status := ''cancelled''\<rparr> \<and> fs = []
         \<and> cs = [\<lparr> c_orderId = o_orderId ord, c_reason = ''user_cancel'',
                     c_timestamp = me_timestamp me \<rparr>]
       else if \<exists>x. expiresAt ord = Some x \<and> x \<le> me_timestamp me then
         ord' = ord\<lparr>status := ''cancelled''\<rparr> \<and> fs = []
         \<and> cs = [\<lparr> c_orderId = o_orderId ord, c_reason = ''ttl_timeout'',
                     c_timestamp = me_timestamp me \<rparr>]
       else
         cs = []
         \<and> (mode ord = ''passive''
              \<and> \<not> (if o_side ord = ''buy''
                     then \<exists>a. bestAsk me = Some a \<and> a \<le> o_price ord
                     else \<exists>b. bestBid me = Some b \<and> o_price ord \<le> b) \<longrightarrow>
              ord' = ord \<and> fs = [])
         \<and> (mode ord \<noteq> ''passive''
              \<or> (if o_side ord = ''buy''
                  then \<exists>a. bestAsk me = Some a \<and> a \<le> o_price ord
                  else \<exists>b. bestBid me = Some b \<and> o_price ord \<le> b) \<longrightarrow>
              (\<exists>l. fs = fst (snd (bookFill (fm\<lparr>ledger := l\<rparr>) (o_side ord) (remainingQty ord)
                  (case me_orderbook me of Some b \<Rightarrow> b
                   | None \<Rightarrow> \<lparr>asks = me_asks me, bids = me_bids me\<rparr>)
                  (Some (o_price ord)) (me_timestamp me) (o_orderId ord)
                  (mode ord = ''aggressive'')))))
         \<and> (\<forall>f \<in> set fs.
               (if o_side ord = ''buy'' then f_price f \<le> o_price ord
                else o_price ord \<le> f_price f)
               \<and> feeRate f = (if mode ord = ''aggressive'' then fee_taker fm else fee_maker fm)
               \<and> fee f = f_qty f * f_price f
                           * (if mode ord = ''aggressive'' then fee_taker fm else fee_maker fm)
               \<and> liquidity f = (if mode ord = ''aggressive'' then ''taker'' else ''maker'')))"
proof -
  obtain fm1 os where p: "processOrders fm me (orders fm) = (fm1, os, fills, cancels)"
    and fm': "fm' = fm1\<lparr>orders := os\<rparr>"
    using assms(2) by (auto simp: processMarketEvent_def split: prod.splits)
  from processOrders_nth [OF p assms(3,4)] obtain l fmi ord' fs cs pre post cpre cpost where
    po: "processOrder (fm\<lparr>ledger := l\<rparr>) me ord = (fmi, ord', fs, cs)"
    and len: "length os = length (orders fm)" and nth: "os ! i = (key, ord')"
    and fl: "fills = pre @ fs @ post" and cl: "cancels = cpre @ cs @ cpost"
    by blast
  have "(key, ord) \<in> set (orders fm)"
    using assms(3,4) by (metis nth_mem)
  with after_calls_aligned [of options calls] assms(1)
  have al: "roundToTick (o_price ord) (tickSize (fm\<lparr>ledger := l\<rparr>)) = o_price ord"
    by auto
  note ev = processOrder_evaluation [OF po assms(5) al]
  have "i < length (orders fm') \<and> orders fm' ! i = (key, ord')"
    using fm' len nth assms(3) by simp
  moreover note fl cl
  moreover have "(if me_timestamp me < activeAt ord then
         ord' = ord \<and> fs = [] \<and> cs = []
       else if \<exists>c. cancelEffectiveAt ord = Some c \<and> c \<le> me_timestamp me then
         ord' = ord\<lparr>status := ''cancelled''\<rparr> \<and> fs = []
         \<and> cs = [\<lparr> c_orderId = o_orderId ord, c_reason = ''user_cancel'',
                     c_timestamp = me_timestamp me \<rparr>]
       else if \<exists>x. expiresAt ord = Some x \<and> x \<le> me_timestamp me then
         ord' = ord\<lparr>status := ''cancelled''\<rparr> \<and> fs = []
         \<and> cs = [\<lparr> c_orderId = o_orderId ord, c_reason = ''ttl_timeout'',
                     c_timestamp = me_timestamp me \<rparr>]
       else
         cs = []
         \<and> (mode ord = ''passive''
              \<and> \<not> (if o_side ord = ''buy''
                     then \<exists>a. bestAsk me = Some a \<and> a \<le> o_price ord
                     else \<exists>b. bestBid me = Some b \<and> o_price ord \<le> b) \<longrightarrow>
              ord' = ord \<and> fs = [])
         \<and> (mode ord \<noteq> ''passive''
              \<or> (if o_side ord = ''buy''
                  then \<exists>a. bestAsk me = Some a \<and> a \<le> o_price ord
                  else \<exists>b. bestBid me = Some b \<and> o_price ord \<le> b) \<longrightarrow>
              (\<exists>l. fs = fst (snd (bookFill (fm\<lparr>ledger := l\<rparr>) (o_side ord) (remainingQty ord)
                  (case me_orderbook me of Some b \<Rightarrow> b
                   | None \<Rightarrow> \<lparr>asks = me_asks me, bids = me_bids me\<rparr>)
                  (Some (o_price ord)) (me_timestamp me) (o_orderId ord)
                  (mode ord = ''aggressive'')))))
         \<and> (\<forall>f \<in> set fs.
               (if o_side ord = ''buy'' then f_price f \<le> o_price ord
                else o_price ord \<le> f_price f)
               \<and> feeRate f = (if mode ord = ''aggressive'' then fee_taker fm else fee_maker fm)
               \<and> fee f = f_qty f * f_price f
                           * (if mode ord = ''aggressive'' then fee_taker fm else fee_maker fm)
               \<and> liquidity f = (if mode ord = ''aggressive'' then ''taker'' else ''maker'')))"
  proof (cases "me_timestamp me < activeAt ord")
    case True
    with ev show ?thesis by simp
  next
    case notyet: False
    show ?thesis
    proof (cases "\<exists>c. cancelEffectiveAt ord = Some c \<and> c \<le> me_timestamp me")
      case True
      with ev notyet show ?thesis by simp
    next
      case nocancel: False
      show ?thesis
      proof (cases "\<exists>x. expiresAt ord = Some x \<and> x \<le> me_timestamp me")
        case True
        with ev notyet nocancel show ?thesis by simp
      next
        case False
        with ev notyet nocancel have
          e: "cs = []
       \<and> (mode ord = ''passive''
            \<and> \<not> (if o_side ord = ''buy''
                   then \<exists>a. bestAsk me = Some a \<and> a \<le> o_price ord
                   else \<exists>b. bestBid me = Some b \<and> o_price ord \<le> b) \<longrightarrow>
            fmi = fm\<lparr>ledger := l\<rparr> \<and> ord' = ord \<and> fs = [])
       \<and> (mode ord \<noteq> ''passive''
            \<or> (if o_side ord = ''buy''
                then \<exists>a. bestAsk me = Some a \<and> a \<le> o_price ord
                else \<exists>b. bestBid me = Some b \<and> o_price ord \<le> b) \<longrightarrow>
            fs = fst (snd (bookFill (fm\<lparr>ledger := l\<rparr>) (o_side ord) (remainingQty ord)
                (case me_orderbook me of Some b \<Rightarrow> b
                 | None \<Rightarrow> \<lparr>asks = me_asks me, bids = me_bids me\<rparr>)
                (Some (o_price ord)) (me_timestamp me) (o_orderId ord)
                (mode ord = ''aggressive''))))
       \<and> (\<forall>f \<in> set fs.
             (if o_side ord = ''buy'' then f_price f \<le> o_price ord
              else o_price ord \<le> f_price f)
             \<and> feeRate f = (if mode ord = ''aggressive'' then fee_taker (fm\<lparr>ledger := l\<rparr>) else fee_maker (fm\<lparr>ledger := l\<rparr>))
             \<and> fee f = f_qty f * f_price f
                         * (if mode ord = ''aggressive'' then fee_taker (fm\<lparr>ledger := l\<rparr>) else fee_maker (fm\<lparr>ledger := l\<rparr>))
             \<and> liquidity f = (if mode ord = ''aggressive'' then ''taker'' else ''maker''))"
          by simp
        from e have "\<forall>f \<in> set fs.
               (if o_side ord = ''buy'' then f_price f \<le> o_price ord
                else o_price ord \<le> f_price f)
               \<and> feeRate f = (if mode ord = ''aggressive'' then fee_taker fm else fee_maker fm)
               \<and> fee f = f_qty f * f_price f
                           * (if mode ord = ''aggressive'' then fee_taker fm else fee_maker fm)
               \<and> liquidity f = (if mode ord = ''aggressive'' then ''taker'' else ''maker'')"
          by simp
        moreover from e have "mode ord \<noteq> ''passive''
              \<or> (if o_side ord = ''buy''
                  then \<exists>a. bestAsk me = Some a \<and> a \<le> o_price ord
                  else \<exists>b. bestBid me = Some b \<and> o_price ord \<le> b) \<longrightarrow>
              (\<exists>l. fs = fst (snd (bookFill (fm\<lparr>ledger := l\<rparr>) (o_side ord) (remainingQty ord)
                  (case me_orderbook me of Some b \<Rightarrow> b
                   | None \<Rightarrow> \<lparr>asks = me_asks me, bids = me_bids me\<rparr>)
                  (Some (o_price ord)) (me_timestamp me) (o_orderId ord)
                  (mode ord = ''aggressive''))))"
          by blast
        moreover from e have "cs = []" and "mode ord = ''passive''
              \<and> \<not> (if o_side ord = ''buy''
                     then \<exists>a. bestAsk me = Some a \<and> a \<le> o_price ord
                     else \<exists>b. bestBid me = Some b \<and> o_price ord \<le> b) \<longrightarrow>
              ord' = ord \<and> fs = []"
          by blast+
        ultimately show ?thesis
          using notyet nocancel False by (simp only: if_False)
      qed
    qed
  qed
  ultimately show ?thesis by blast
qed


lemma roundToStep_unit:
  "roundToStep 5 (Some 1) = 5" "roundToStep 100 (Some 1) = 100"
  using roundToStep_multiple [of 1 5] roundToStep_multiple [of 1 100] by simp_all

lemma limit_test_submitted:
  "after_calls limit_test_options [limit_test_submit]
   = (new_FillModel limit_test_options)\<lparr>orders := [(''L1'', limit_test_order)]\<rparr>"
  by (simp add: after_calls_def limit_test_submit_def submitLimitOrder_def
      limit_test_options_def limit_test_order_def new_FillModel_def validateOrder_def
      roundToTick_def roundToLot_def roundToStep_unit orElse_def Let_def)

lemma limit_test_first_event:
  "processMarketEvent (after_calls limit_test_options [limit_test_submit])
     (limit_test_event 5 100 99 [\<lparr>lv_price = 100, lv_qty = 2\<rparr>])
   = (([\<lparr> f_orderId = ''L1'', f_timestamp = 5, f_side = ''buy'', f_qty = 2, f_price = 100,
            executedNotional = 200, fee = 1 / 10, feeRate = 1 / 2000,
            liquidity = ''maker'', realizedPnlDelta = - (1 / 10) \<rparr>], []),
      (new_FillModel limit_test_options)
        \<lparr> orders := [(''L1'', limit_test_order
                \<lparr> remainingQty := 3,
                  o_fills := [\<lparr> f_orderId = ''L1'', f_timestamp = 5, f_side = ''buy'',
                                f_qty = 2, f_price = 100, executedNotional = 200,
                                fee = 1 / 10, feeRate = 1 / 2000, liquidity = ''maker'',
                                realizedPnlDelta = - (1 / 10) \<rparr>] \<rparr>)],
          ledger := \<lparr>qty = 2, avgPrice = 100, realizedPnl = - (1 / 10)\<rparr> \<rparr>)"
  unfolding limit_test_submitted
  by (simp add: processMarketEvent_def processOrder_def executeLimitOrder_def crossed_def
      bookFill_def normalizeBookSide_def limit_test_event_def limit_test_order_def
      limit_test_options_def new_FillModel_def new_PositionLedger_def orElse_def
      applyFill_def roundToTick_def roundToStep_unit Let_def)

text \<open>
  The unit test: the order is submitted; at time 5 it meets a best ask of 100 and one
  ask level of 2 at 100 and is filled for 2 as maker, with a fee of 0.1; at time 11 it
  has expired and is cancelled.
\<close>

theorem limit_order_evaluation_witness:
  "(case processMarketEvent (after_calls limit_test_options [limit_test_submit])
           (limit_test_event 5 100 99 [\<lparr>lv_price = 100, lv_qty = 2\<rparr>]) of
      ((fills, cancels), fm') \<Rightarrow>
        cancels = []
        \<and> map (\<lambda>f. (f_qty f, f_price f, fee f, feeRate f, liquidity f)) fills
            = [(2, 100, 1 / 10, 1 / 2000, ''maker'')]
        \<and> map (\<lambda>(k, od). (k, status od, remainingQty od)) (orders fm')
            = [(''L1'', ''open'', 3)])
   \<and> (case processMarketEvent
           (after_calls limit_test_options
              [limit_test_submit,
               Call_processMarketEvent
                 (limit_test_event 5 100 99 [\<lparr>lv_price = 100, lv_qty = 2\<rparr>])])
           (limit_test_event 11 101 100 []) of
      ((fills, cancels), fm') \<Rightarrow>
        fills = []
        \<and> cancels = [\<lparr>c_orderId = ''L1'', c_reason = ''ttl_timeout'', c_timestamp = 11\<rparr>]
        \<and> map (\<lambda>(k, od). (k, status od, remainingQty od)) (orders fm')
            = [(''L1'', ''cancelled'', 3)])"
proof -
  let ?e5 = "limit_test_event 5 100 99 [\<lparr>lv_price = 100, lv_qty = 2\<rparr>]"
  let ?e11 = "limit_test_event 11 101 100 []"
  let ?fm1 = "after_calls limit_test_options [limit_test_submit]"
  let ?fm2 = "after_calls limit_test_options [limit_test_submit, Call_processMarketEvent ?e5]"
  obtain fills1 cancels1 fm1' where
    p1: "processMarketEvent ?fm1 ?e5 = ((fills1, cancels1), fm1')"
    by (cases "processMarketEvent ?fm1 ?e5") auto
  obtain fills2 cancels2 fm2' where
    p2: "processMarketEvent ?fm2 ?e11 = ((fills2, cancels2), fm2')"
    by (cases "processMarketEvent ?fm2 ?e11") auto
  have o1: "orders ?fm1 = [(''L1'', limit_test_order)]"
    by (simp add: limit_test_submitted)
  have fm2: "?fm2 = snd (processMarketEvent ?fm1 ?e5)"
    by (simp add: after_calls_def)
  have o2: "orders ?fm2 = [(''L1'', limit_test_order
                \<lparr> remainingQty := 3,
                  o_fills := [\<lparr> f_orderId = ''L1'', f_timestamp = 5, f_side = ''buy'',
                                f_qty = 2, f_price = 100, executedNotional = 200,
                                fee = 1 / 10, feeRate = 1 / 2000, liquidity = ''maker'',
                                realizedPnlDelta = - (1 / 10) \<rparr>] \<rparr>)]"
    unfolding fm2 limit_test_first_event by simp
  have i1: "0 < length (orders ?fm1)" and n1: "orders ?fm1 ! 0 = (''L1'', limit_test_order)"
    and s1: "status limit_test_order = ''open''"
    by (simp_all add: o1 limit_test_order_def)
  have t1: "\<exists>ord'. orders fm1' ! 0 = (''L1'', ord')"
    using limit_order_evaluation [OF refl p1 i1 n1 s1]
    by (elim exE conjE) (rule exI)
  let ?ord2 = "limit_test_order
                \<lparr> remainingQty := 3,
                  o_fills := [\<lparr> f_orderId = ''L1'', f_timestamp = 5, f_side = ''buy'',
                                f_qty = 2, f_price = 100, executedNotional = 200,
                                fee = 1 / 10, feeRate = 1 / 2000, liquidity = ''maker'',
                                realizedPnlDelta = - (1 / 10) \<rparr>] \<rparr>"
  have i2: "0 < length (orders ?fm2)" and n2: "orders ?fm2 ! 0 = (''L1'', ?ord2)"
    and s2: "status ?ord2 = ''open''"
    by (simp_all add: o2 limit_test_order_def)
  have t2: "\<exists>ord'. orders fm2' ! 0 = (''L1'', ord')"
    using limit_order_evaluation [OF refl p2 i2 n2 s2]
    by (elim exE conjE) (rule exI)
  have v2: "processMarketEvent ?fm2 ?e11
            = (([], [\<lparr>c_orderId = ''L1'', c_reason = ''ttl_timeout'', c_timestamp = 11\<rparr>]),
               ?fm2\<lparr>orders := [(''L1'', limit_test_order
                \<lparr> remainingQty := 3,
                  o_fills := [\<lparr> f_orderId = ''L1'', f_timestamp = 5, f_side = ''buy'',
                                f_qty = 2, f_price = 100, executedNotional = 200,
                                fee = 1 / 10, feeRate = 1 / 2000, liquidity = ''maker'',
                                realizedPnlDelta = - (1 / 10) \<rparr>],
                  status := ''cancelled'' \<rparr>)]\<rparr>)"
    using o2
    by (simp add: processMarketEvent_def processOrder_def limit_test_event_def
        limit_test_order_def Let_def)
  show ?thesis
    using t1 t2 unfolding limit_test_first_event v2
    by (simp add: limit_test_order_def)
qed

section \<open>Properties of the engine\<close>

text \<open>The definitions that the concrete runs below unfold.\<close>

lemmas engine_defs =
  run_def start_run_def reset_def new_BacktestEngine_def initial_state_def validateRunParams_def
  blank_def valid_date_def enqueueEvents_def normalizeEvent_def event_key_def
  processEvent_def handleMarketEvent_def handleSignal_def handleOrderSubmitted_def
  handleOrderFilled_def handleOrderCancelled_def handleFundingPayment_def handleMarginUpdate_def
  handleLiquidation_def updateEquity_def queueRiskEvents_def queueFundingEventsUntil_def
  getRiskPrice_def createContext_def cfg_num_def cfg_market_type_def isMarginMarket_def
  calculateUnrealizedPnl_def calculateMarginSnapshot_def numOf_def coalesce_def orElse_def
  new_event_def with_default_execution_def default_onMarketEvent_def dispatched_events_def
  test_collaborators_def test_engine_def test_params_def funding_params_def
  fill_event_def candle_event_def noop_strategy_def liquidation_event_def long_one_state_def
  liquidation_test_engine_def funding_test_engine_def equity_positions_def

subsection \<open>The order of dispatch\<close>

text \<open>
  The comparator of the queue's sort orders by \<^const>\<open>event_key\<close>, every operation that
  adds to the queue sorts it again, and the loop takes the queue's head.
\<close>

lemma compareEvents_key:
  "(compareEvents a b < 0 \<longleftrightarrow> event_key a < event_key b)
   \<and> (compareEvents a b = 0 \<longleftrightarrow> event_key a = event_key b)"
  by (auto simp: compareEvents_def event_key_def less_prod_def)

lemma enqueueEvents_sorted: "sorted (map event_key (eventQueue (enqueueEvents evs en)))"
  by (simp add: enqueueEvents_def split: prod.splits)

lemma enqueueEvents_fields [simp]:
  "state (enqueueEvents evs en) = state en"
  "currentConfig (enqueueEvents evs en) = currentConfig en"
  "nextFundingTimestamp (enqueueEvents evs en) = nextFundingTimestamp en"
  "tradeLogs (enqueueEvents evs en) = tradeLogs en"
  "equitySeries (enqueueEvents evs en) = equitySeries en"
  by (simp_all add: enqueueEvents_def split: prod.splits)

lemma queueRiskEvents_sorted:
  "sorted (map event_key (eventQueue en)) \<Longrightarrow>
   sorted (map event_key (eventQueue (queueRiskEvents ts trig en)))"
  by (simp add: queueRiskEvents_def Let_def enqueueEvents_sorted)

lemma queueFunding_loop_inv:
  assumes "P en"
    and "\<And>en b. P en \<Longrightarrow> nextFundingTimestamp en = Some b \<Longrightarrow> 0 < i \<Longrightarrow> b \<le> ts \<Longrightarrow>
           P ((enqueueEvents
                 [(new_event Funding_payment b)
                    \<lparr> e_amount := Some (- (\<bar>qty (position (state en))\<bar> * \<bar>getRiskPrice en\<bar>) * r),
                      e_funding_rate := Some r,
                      e_interval_multiplier := Some 1,
                      e_position_notional :=
                        Some (\<bar>qty (position (state en))\<bar> * \<bar>getRiskPrice en\<bar>) \<rparr>] en)
               \<lparr>nextFundingTimestamp := Some (b + i)\<rparr>)"
  shows "P (queueFunding_loop ts i r en)"
  using assms
proof (induction ts i r en rule: queueFunding_loop.induct)
  case (1 ts i r en)
  show ?case
  proof (cases "nextFundingTimestamp en")
    case None
    with "1.prems"(1) show ?thesis by (subst queueFunding_loop.simps) simp
  next
    case (Some b)
    show ?thesis
    proof (cases "0 < i \<and> b \<le> ts")
      case True
      let ?en' = "(enqueueEvents
                 [(new_event Funding_payment b)
                    \<lparr> e_amount := Some (- (\<bar>qty (position (state en))\<bar> * \<bar>getRiskPrice en\<bar>) * r),
                      e_funding_rate := Some r,
                      e_interval_multiplier := Some 1,
                      e_position_notional :=
                        Some (\<bar>qty (position (state en))\<bar> * \<bar>getRiskPrice en\<bar>) \<rparr>] en)
               \<lparr>nextFundingTimestamp := Some (b + i)\<rparr>"
      have "P ?en'"
        using "1.prems"(2) [OF "1.prems"(1) Some] True by blast
      then have "P (queueFunding_loop ts i r ?en')"
        using "1.prems"(2) by (intro "1.IH" [OF Some True refl refl refl refl]) blast+
      moreover have "queueFunding_loop ts i r en = queueFunding_loop ts i r ?en'"
        using Some True by (subst queueFunding_loop.simps) (simp add: Let_def)
      ultimately show ?thesis by simp
    next
      case False
      with Some "1.prems"(1) show ?thesis by (subst queueFunding_loop.simps) auto
    qed
  qed
qed

lemma queueFunding_loop_sorted:
  "sorted (map event_key (eventQueue en)) \<Longrightarrow>
   sorted (map event_key (eventQueue (queueFunding_loop ts i r en)))"
  by (rule queueFunding_loop_inv) (simp_all add: enqueueEvents_sorted)

lemma queueFundingEventsUntil_sorted:
  "sorted (map event_key (eventQueue en)) \<Longrightarrow>
   sorted (map event_key (eventQueue (queueFundingEventsUntil ts en)))"
  by (simp add: queueFundingEventsUntil_def Let_def queueFunding_loop_sorted split: option.splits)

lemma handleOrderFilled_sorted:
  "sorted (map event_key (eventQueue en)) \<Longrightarrow>
   sorted (map event_key (eventQueue (handleOrderFilled ev en)))"
  by (simp add: handleOrderFilled_def Let_def queueRiskEvents_sorted)

lemma updateEquity_fields [simp]:
  "eventQueue (updateEquity ts en) = eventQueue en"
  "position (state (updateEquity ts en)) = position (state en)"
  "cash (state (updateEquity ts en)) = cash (state en)"
  "liquidated (state (updateEquity ts en)) = liquidated (state en)"
  "tradeLogs (updateEquity ts en) = tradeLogs en"
  by (simp_all add: updateEquity_def Let_def)

lemma processEvent_sorted:
  assumes "sorted (map event_key (eventQueue en))"
    and "processEvent c ev en = Inr en'"
  shows "sorted (map event_key (eventQueue en'))"
proof -
  have "sorted (map event_key (eventQueue (handleMarketEvent c ev en)))"
    by (simp add: handleMarketEvent_def Let_def queueRiskEvents_sorted
        queueFundingEventsUntil_sorted enqueueEvents_sorted split: prod.splits)
  moreover have "sorted (map event_key (eventQueue (handleSignal c ev en)))"
    by (simp add: handleSignal_def enqueueEvents_sorted split: prod.splits)
  moreover have "sorted (map event_key (eventQueue (handleOrderSubmitted ev en)))"
    using assms(1) by (simp add: handleOrderSubmitted_def)
  moreover have "sorted (map event_key (eventQueue (handleOrderCancelled ev en)))"
    using assms(1) by (simp add: handleOrderCancelled_def Let_def split: option.splits)
  moreover have "sorted (map event_key (eventQueue (handleFundingPayment ev en)))"
    using assms(1) by (simp add: handleFundingPayment_def Let_def queueRiskEvents_sorted)
  moreover have "sorted (map event_key (eventQueue (handleMarginUpdate ev en)))"
    using assms(1) by (simp add: handleMarginUpdate_def Let_def)
  moreover have "sorted (map event_key (eventQueue (handleLiquidation ev en)))"
    using assms(1) by (simp add: handleLiquidation_def Let_def handleOrderFilled_sorted)
  ultimately show ?thesis
    using assms(2) handleOrderFilled_sorted [OF assms(1), of ev]
    by (auto simp: processEvent_def split: kind.splits option.splits)
qed

text \<open>
  Claim C1, as far as it holds. In every run, whatever the collaborators enqueue, each
  event the loop dispatches has a (timestamp, priority, sequence) key less than or equal
  to the key of every event that is pending in the queue at that moment. Events that are
  enqueued later, among them the funding payments that the engine stamps with a boundary
  already passed, are not covered: they may carry a smaller key than an event dispatched
  before them.
\<close>

theorem dispatch_least_pending:
  assumes "(ev, pending) \<in> set (fst (run_loop fuel c (start_run en p events)))"
    and "x \<in> set pending"
  shows "event_key ev \<le> event_key x"
proof -
  have loop: "sorted (map event_key (eventQueue e)) \<Longrightarrow>
          (ev, pending) \<in> set (fst (run_loop n c e)) \<Longrightarrow> event_key ev \<le> event_key x"
    for n and e :: "('a, 'b) engine"
  proof (induction n arbitrary: e)
    case 0
    then show ?case
      by (subst (asm) run_loop.simps) (simp split: list.splits)
  next
    case (Suc n)
    show ?case
    proof (cases "eventQueue e")
      case Nil
      with Suc.prems show ?thesis
        by (subst (asm) run_loop.simps) simp
    next
      case (Cons nextEvent rest)
      have here: "(ev, pending) = (nextEvent, rest) \<Longrightarrow> ?thesis"
        using Suc.prems(1) Cons assms(2) by auto
      have tl: "sorted (map event_key (eventQueue (e\<lparr>eventQueue := rest\<rparr>)))"
        using Suc.prems(1) Cons by simp
      show ?thesis
      proof (cases "processEvent c nextEvent (e\<lparr>eventQueue := rest\<rparr>)")
        case (Inl err)
        with Suc.prems(2) Cons here show ?thesis
          by (subst (asm) run_loop.simps) simp
      next
        case (Inr e')
        have s': "sorted (map event_key (eventQueue e'))"
          using processEvent_sorted [OF tl Inr] .
        from Suc.prems(2) Cons Inr have
          "(ev, pending) = (nextEvent, rest) \<or> (ev, pending) \<in> set (fst (run_loop n c e'))"
          by (subst (asm) run_loop.simps) (auto split: if_splits prod.splits)
        with here Suc.IH [OF s'] show ?thesis by blast
      qed
    qed
  qed
  have "sorted (map event_key (eventQueue (start_run en p events)))"
    by (simp add: start_run_def Let_def enqueueEvents_sorted)
  from loop [OF this assms(1)] show ?thesis .
qed

text \<open>
  A run with funding every 10 ms: a fill at 0 opens the position, the candle at 1 anchors
  the first boundary at 11, and the candle at 25 makes the engine enqueue the payments
  of the boundaries 11 and 21. Each dispatch is shown with the keys pending at that
  moment.
\<close>

lemma funding_run_trace:
  "map (\<lambda>(ev, pending). (event_key ev, map event_key pending))
     (fst (run_loop 10 test_collaborators
        (start_run (test_engine None) funding_params
           [fill_event 0 ''buy'' 1 100, candle_event 1 100, candle_event 25 100])))
   = [((0, 40, 0), [(1, 10, 1), (25, 10, 2)]),
      ((1, 10, 1), [(25, 10, 2)]),
      ((25, 10, 2), []),
      ((11, 60, 3), [(21, 60, 4)]),
      ((21, 60, 4), [])]"
  by (simp add: engine_defs run_loop.simps queueFunding_loop.simps Let_def)

text \<open>
  Claim C1 as stated fails on that run: the candle of timestamp 25 is dispatched before
  the funding payments of timestamps 11 and 21, so the keys of the dispatched events are
  not in ascending order.
\<close>

theorem dispatch_order_counterexample:
  "map event_key
     (dispatched_events test_collaborators 10 (test_engine None) funding_params
        [fill_event 0 ''buy'' 1 100, candle_event 1 100, candle_event 25 100])
   = [(0, 40, 0), (1, 10, 1), (25, 10, 2), (11, 60, 3), (21, 60, 4)]
   \<and> \<not> sorted (map event_key
     (dispatched_events test_collaborators 10 (test_engine None) funding_params
        [fill_event 0 ''buy'' 1 100, candle_event 1 100, candle_event 25 100]))"
proof -
  have "map event_key
     (dispatched_events test_collaborators 10 (test_engine None) funding_params
        [fill_event 0 ''buy'' 1 100, candle_event 1 100, candle_event 25 100])
   = map fst (map (\<lambda>(ev, pending). (event_key ev, map event_key pending))
     (fst (run_loop 10 test_collaborators
        (start_run (test_engine None) funding_params
           [fill_event 0 ''buy'' 1 100, candle_event 1 100, candle_event 25 100]))))"
    by (simp add: dispatched_events_def split_def comp_def)
  then have "map event_key
     (dispatched_events test_collaborators 10 (test_engine None) funding_params
        [fill_event 0 ''buy'' 1 100, candle_event 1 100, candle_event 25 100])
   = [(0, 40, 0), (1, 10, 1), (25, 10, 2), (11, 60, 3), (21, 60, 4)]"
    unfolding funding_run_trace by simp
  then show ?thesis by simp
qed

text \<open>
  On the same run, the first dispatch (the fill, key (0, 40, 0)) is below the two
  candles pending then.
\<close>

theorem dispatch_least_pending_witness:
  "fst (run_loop 10 test_collaborators
        (start_run (test_engine None) funding_params
           [fill_event 0 ''buy'' 1 100, candle_event 1 100, candle_event 25 100])) \<noteq> []
   \<and> event_key (fst (hd (fst (run_loop 10 test_collaborators
        (start_run (test_engine None) funding_params
           [fill_event 0 ''buy'' 1 100, candle_event 1 100, candle_event 25 100])))))
     \<le> event_key (hd (snd (hd (fst (run_loop 10 test_collaborators
        (start_run (test_engine None) funding_params
           [fill_event 0 ''buy'' 1 100, candle_event 1 100, candle_event 25 100]))))))
   \<and> event_key (fst (hd (fst (run_loop 10 test_collaborators
        (start_run (test_engine None) funding_params
           [fill_event 0 ''buy'' 1 100, candle_event 1 100, candle_event 25 100])))))
     \<le> event_key (last (snd (hd (fst (run_loop 10 test_collaborators
        (start_run (test_engine None) funding_params
           [fill_event 0 ''buy'' 1 100, candle_event 1 100, candle_event 25 100]))))))
   \<and> map event_key (snd (hd (fst (run_loop 10 test_collaborators
        (start_run (test_engine None) funding_params
           [fill_event 0 ''buy'' 1 100, candle_event 1 100, candle_event 25 100])))))
     = [(1, 10, 1), (25, 10, 2)]"
proof -
  let ?T = "fst (run_loop 10 test_collaborators
        (start_run (test_engine None) funding_params
           [fill_event 0 ''buy'' 1 100, candle_event 1 100, candle_event 25 100]))"
  have ne: "?T \<noteq> []"
    using funding_run_trace by auto
  then have mem: "(fst (hd ?T), snd (hd ?T)) \<in> set ?T"
    by simp
  have keys: "map event_key (snd (hd ?T)) = [(1, 10, 1), (25, 10, 2)]"
    using funding_run_trace ne by (cases ?T) (auto simp: split_def)
  then have pending: "snd (hd ?T) \<noteq> []"
    by auto
  then have first: "hd (snd (hd ?T)) \<in> set (snd (hd ?T))"
    and final: "last (snd (hd ?T)) \<in> set (snd (hd ?T))"
    by simp_all
  have "event_key (fst (hd ?T)) \<le> event_key (hd (snd (hd ?T)))"
    using mem first by (rule dispatch_least_pending)
  moreover have "event_key (fst (hd ?T)) \<le> event_key (last (snd (hd ?T)))"
    using mem final by (rule dispatch_least_pending)
  ultimately show ?thesis
    using ne keys by simp
qed

subsection \<open>The position in the equity series\<close>

text \<open>
  Only \<open>handleOrderFilled\<close> writes the position, and it sets the average price to 0
  whenever the new quantity is 0; the account starts flat.
\<close>

lemma queueRiskEvents_fields [simp]:
  "state (queueRiskEvents ts trig en) = state en"
  "currentConfig (queueRiskEvents ts trig en) = currentConfig en"
  "tradeLogs (queueRiskEvents ts trig en) = tradeLogs en"
  "equitySeries (queueRiskEvents ts trig en) = equitySeries en"
  by (simp_all add: queueRiskEvents_def Let_def)

lemma queueFunding_loop_frame:
  "state (queueFunding_loop ts i r en) = state en
   \<and> currentConfig (queueFunding_loop ts i r en) = currentConfig en
   \<and> tradeLogs (queueFunding_loop ts i r en) = tradeLogs en
   \<and> equitySeries (queueFunding_loop ts i r en) = equitySeries en"
  by (rule queueFunding_loop_inv
        [where P = "\<lambda>e. state e = state en \<and> currentConfig e = currentConfig en
                      \<and> tradeLogs e = tradeLogs en \<and> equitySeries e = equitySeries en"])
     simp_all

lemma queueFundingEventsUntil_fields [simp]:
  "state (queueFundingEventsUntil ts en) = state en"
  "currentConfig (queueFundingEventsUntil ts en) = currentConfig en"
  "tradeLogs (queueFundingEventsUntil ts en) = tradeLogs en"
  "equitySeries (queueFundingEventsUntil ts en) = equitySeries en"
  by (simp_all add: queueFundingEventsUntil_def Let_def queueFunding_loop_frame
      split: option.splits)

lemma handleOrderFilled_flat:
  "qty (position (state (handleOrderFilled ev en))) = 0 \<longrightarrow>
   avgPrice (position (state (handleOrderFilled ev en))) = 0"
  by (simp add: handleOrderFilled_def Let_def)

lemma handleOrderFilled_equitySeries [simp]:
  "equitySeries (handleOrderFilled ev en) = equitySeries en"
  by (simp add: handleOrderFilled_def Let_def)

lemma handleLiquidation_position:
  "position (state (handleLiquidation ev en))
   = (if qty (position (state en)) \<noteq> 0 then \<lparr>qty = 0, avgPrice = 0\<rparr>
      else position (state en))"
  by (auto simp: handleLiquidation_def handleOrderFilled_def numOf_def Let_def)

lemma handleLiquidation_flat:
  assumes "qty (position (state en)) = 0 \<longrightarrow> avgPrice (position (state en)) = 0"
  shows "qty (position (state (handleLiquidation ev en))) = 0 \<longrightarrow>
         avgPrice (position (state (handleLiquidation ev en))) = 0"
  using assms by (simp add: handleLiquidation_position)

lemma updateEquity_flat:
  assumes "qty (position (state e1)) = 0 \<longrightarrow> avgPrice (position (state e1)) = 0"
    and "equitySeries e1 = equitySeries e0"
    and "\<forall>x \<in> set (equitySeries e0). position_qty x = 0 \<longrightarrow> position_avg_price x = 0"
  shows "(qty (position (state (updateEquity ts e1))) = 0 \<longrightarrow>
            avgPrice (position (state (updateEquity ts e1))) = 0)
         \<and> (\<forall>x \<in> set (equitySeries (updateEquity ts e1)).
               position_qty x = 0 \<longrightarrow> position_avg_price x = 0)"
  using assms by (auto simp: updateEquity_def Let_def)

lemma handlers_keep_position:
  "position (state (handleMarketEvent c ev en)) = position (state en)"
  "equitySeries (handleMarketEvent c ev en) = equitySeries en"
  "position (state (handleSignal c ev en)) = position (state en)"
  "equitySeries (handleSignal c ev en) = equitySeries en"
  "position (state (handleOrderSubmitted ev en)) = position (state en)"
  "equitySeries (handleOrderSubmitted ev en) = equitySeries en"
  "position (state (handleOrderCancelled ev en)) = position (state en)"
  "equitySeries (handleOrderCancelled ev en) = equitySeries en"
  "position (state (handleFundingPayment ev en)) = position (state en)"
  "equitySeries (handleFundingPayment ev en) = equitySeries en"
  "position (state (handleMarginUpdate ev en)) = position (state en)"
  "equitySeries (handleMarginUpdate ev en) = equitySeries en"
  "equitySeries (handleLiquidation ev en) = equitySeries en"
  by (simp_all add: handleMarketEvent_def handleSignal_def handleOrderSubmitted_def
      handleOrderCancelled_def handleFundingPayment_def handleMarginUpdate_def
      handleLiquidation_def Let_def split: prod.splits option.splits)

lemma processEvent_flat:
  assumes "qty (position (state en)) = 0 \<longrightarrow> avgPrice (position (state en)) = 0"
    and "\<forall>e \<in> set (equitySeries en). position_qty e = 0 \<longrightarrow> position_avg_price e = 0"
    and "processEvent c ev en = Inr en'"
  shows "(qty (position (state en')) = 0 \<longrightarrow> avgPrice (position (state en')) = 0)
         \<and> (\<forall>e \<in> set (equitySeries en'). position_qty e = 0 \<longrightarrow> position_avg_price e = 0)"
proof -
  have keep: "en' = updateEquity (timestamp ev) e1 \<Longrightarrow>
              position (state e1) = position (state en) \<Longrightarrow>
              equitySeries e1 = equitySeries en \<Longrightarrow> ?thesis" for e1
    using updateEquity_flat [of e1 en "timestamp ev"] assms(1,2) by simp
  show ?thesis
  proof (cases "etype ev")
    case Order_filled
    then have "en' = updateEquity (timestamp ev) (handleOrderFilled ev en)"
      using assms(3) by (simp add: processEvent_def split: option.splits)
    with updateEquity_flat [OF handleOrderFilled_flat handleOrderFilled_equitySeries assms(2)]
    show ?thesis by simp
  next
    case Liquidated
    then have "en' = updateEquity (timestamp ev) (handleLiquidation ev en)"
      using assms(3) by (simp add: processEvent_def)
    with updateEquity_flat [OF handleLiquidation_flat [OF assms(1)]
        handlers_keep_position(13) assms(2)]
    show ?thesis by simp
  next
    case Other_kind
    with assms(3) show ?thesis by (simp add: processEvent_def)
  next
    case Tick
    with assms(3) show ?thesis
      by (intro keep [of "handleMarketEvent c ev en"])
         (simp_all add: processEvent_def handlers_keep_position)
  next
    case Candle
    with assms(3) show ?thesis
      by (intro keep [of "handleMarketEvent c ev en"])
         (simp_all add: processEvent_def handlers_keep_position)
  next
    case Signal_generated
    with assms(3) show ?thesis
      by (intro keep [of "handleSignal c ev en"])
         (simp_all add: processEvent_def handlers_keep_position)
  next
    case Order_submitted
    with assms(3) show ?thesis
      by (intro keep [of "handleOrderSubmitted ev en"])
         (simp_all add: processEvent_def handlers_keep_position)
  next
    case Order_cancelled
    with assms(3) show ?thesis
      by (intro keep [of "handleOrderCancelled ev en"])
         (simp_all add: processEvent_def handlers_keep_position)
  next
    case Funding_payment
    with assms(3) show ?thesis
      by (intro keep [of "handleFundingPayment ev en"])
         (simp_all add: processEvent_def handlers_keep_position split: option.splits)
  next
    case Margin_update
    with assms(3) show ?thesis
      by (intro keep [of "handleMarginUpdate ev en"])
         (simp_all add: processEvent_def handlers_keep_position)
  qed
qed

lemma run_loop_flat:
  assumes "snd (run_loop n c e) = Some (Inr e')"
    and "qty (position (state e)) = 0 \<longrightarrow> avgPrice (position (state e)) = 0"
    and "\<forall>x \<in> set (equitySeries e). position_qty x = 0 \<longrightarrow> position_avg_price x = 0"
  shows "\<forall>x \<in> set (equitySeries e'). position_qty x = 0 \<longrightarrow> position_avg_price x = 0"
  using assms
proof (induction n arbitrary: e)
  case 0
  then show ?case
    by (subst (asm) run_loop.simps) (auto split: list.splits)
next
  case (Suc n)
  show ?case
  proof (cases "eventQueue e")
    case Nil
    with Suc.prems show ?thesis
      by (subst (asm) run_loop.simps) auto
  next
    case (Cons nextEvent rest)
    show ?thesis
    proof (cases "processEvent c nextEvent (e\<lparr>eventQueue := rest\<rparr>)")
      case (Inl err)
      with Suc.prems(1) Cons show ?thesis
        by (subst (asm) run_loop.simps) simp
    next
      case (Inr e1)
      have inv: "(qty (position (state e1)) = 0 \<longrightarrow> avgPrice (position (state e1)) = 0)
         \<and> (\<forall>x \<in> set (equitySeries e1). position_qty x = 0 \<longrightarrow> position_avg_price x = 0)"
        using processEvent_flat [OF _ _ Inr] Suc.prems(2,3) by simp
      show ?thesis
      proof (cases "liquidated (state e1)")
        case True
        with Suc.prems(1) Cons Inr have "e' = e1"
          by (subst (asm) run_loop.simps) simp
        with inv show ?thesis by simp
      next
        case False
        with Suc.prems(1) Cons Inr have "snd (run_loop n c e1) = Some (Inr e')"
          by (subst (asm) run_loop.simps) (simp split: prod.splits)
        from Suc.IH [OF this] inv show ?thesis by simp
      qed
    qed
  qed
qed

text \<open>
  Claim C7, as far as it holds. In every entry of the equity series of a run, the
  recorded position average price is 0 when the recorded position quantity is 0. The
  converse is not claimed: an open position can have the average price 0.
\<close>

theorem equity_series_flat_position:
  assumes "run c fuel en p events = Some (Inr r)"
    and "entry \<in> set (res_equitySeries r)"
    and "position_qty entry = 0"
  shows "position_avg_price entry = 0"
proof -
  from assms(1) obtain e' where
    loop: "snd (run_loop fuel c (start_run en p events)) = Some (Inr e')"
    and r: "res_equitySeries r = equitySeries e'"
    by (auto simp: run_def split: option.splits sum.splits)
  have "position (state (start_run en p events)) = \<lparr>qty = 0, avgPrice = 0\<rparr>
        \<and> equitySeries (start_run en p events) = []"
    by (simp add: start_run_def reset_def initial_state_def Let_def split: option.splits)
  with run_loop_flat [OF loop] assms(2,3) r show ?thesis
    by simp
qed

text \<open>
  A buy of 2 at 100 followed by a sell of \<open>q\<close> at \<open>p\<close>: what the two entries of the equity
  series record.
\<close>

lemma two_fills_run:
  "equity_positions (run test_collaborators 10 (test_engine None) (test_params ''spot'')
      [fill_event 1 ''buy'' 2 100, fill_event 2 ''sell'' q p])
   = [(2, 100),
      (2 - \<bar>q\<bar>,
       if 2 - \<bar>q\<bar> = 0 then 0
       else if sgn (2 - \<bar>q\<bar>) = 1 then (200 - p * \<bar>q\<bar>) / (2 - \<bar>q\<bar>) else p)]"
  by (simp add: engine_defs run_loop.simps Let_def)

text \<open>
  Claim C7 as stated fails: after a buy of 2 at 100 and a sell of 1 at 200 the position
  is 1 and the cost basis \<open>(100 \<times> 2 - 200 \<times> 1) / 1\<close> is 0, so the entry records the
  average price 0 with the quantity 1. So does a single buy of 1 at the price 0.
\<close>

theorem flat_position_counterexample:
  "equity_positions (run test_collaborators 10 (test_engine None) (test_params ''spot'')
      [fill_event 1 ''buy'' 2 100, fill_event 2 ''sell'' 1 200])
   = [(2, 100), (1, 0)]
   \<and> equity_positions (run test_collaborators 10 (test_engine None) (test_params ''spot'')
      [fill_event 1 ''buy'' 1 0])
   = [(1, 0)]"
proof -
  have "equity_positions (run test_collaborators 10 (test_engine None) (test_params ''spot'')
      [fill_event 1 ''buy'' 1 0])
   = [(1, 0)]"
    by (simp add: engine_defs run_loop.simps Let_def)
  then show ?thesis
    by (simp add: two_fills_run)
qed

text \<open>A buy of 2 followed by a sell of 2: the last entry is flat, with average price 0.\<close>

theorem equity_series_flat_position_witness:
  "(case run test_collaborators 10 (test_engine None) (test_params ''spot'')
          [fill_event 1 ''buy'' 2 100, fill_event 2 ''sell'' 2 110] of
      Some (Inr r) \<Rightarrow>
        map position_qty (res_equitySeries r) = [2, 0]
        \<and> position_avg_price (last (res_equitySeries r)) = 0
    | _ \<Rightarrow> False)"
proof -
  let ?run = "run test_collaborators 10 (test_engine None) (test_params ''spot'')
          [fill_event 1 ''buy'' 2 100, fill_event 2 ''sell'' 2 110]"
  have "\<exists>r. ?run = Some (Inr r) \<and> map position_qty (res_equitySeries r) = [2, 0]"
    by (simp add: engine_defs run_loop.simps Let_def)
  then obtain r where r: "?run = Some (Inr r)"
    and q: "map position_qty (res_equitySeries r) = [2, 0]"
    by (elim exE conjE) (rule that)
  from q have ne: "res_equitySeries r \<noteq> []" by auto
  then have mem: "last (res_equitySeries r) \<in> set (res_equitySeries r)"
    by simp
  have "position_qty (last (res_equitySeries r)) = last (map position_qty (res_equitySeries r))"
    using ne by (simp add: last_map)
  then have z: "position_qty (last (res_equitySeries r)) = 0"
    by (simp add: q)
  from equity_series_flat_position [OF r mem z] r q show ?thesis
    by simp
qed

subsection \<open>Liquidation\<close>

lemma handleLiquidation_effect:
  fixes en :: "('s, 'x) engine"
  assumes "liqPrice = orElse (coalesce (e_price ev) (lastPrice (state en)))
                        (avgPrice (position (state en)))"
    and "q = qty (position (state en))"
  shows "liquidated (state (handleLiquidation ev en))
     \<and> cash (state (handleLiquidation ev en)) = cash (state en) + q * liqPrice - \<bar>numOf (e_penalty ev)\<bar>
     \<and> tradeLogs (handleLiquidation ev en) = tradeLogs en @
          (if q = 0 then []
           else [Log_order_filled (timestamp ev)
                   (Some (case e_order_id ev of Some i \<Rightarrow> i | None \<Rightarrow> Liq_id (timestamp ev)))
                   (Some (if q > 0 then ''sell'' else ''buy'')) (Some \<bar>q\<bar>) (Some liqPrice)
                   (cash (state en) + q * liqPrice) \<lparr>qty = 0, avgPrice = 0\<rparr>]) @
          [Log_liquidated (timestamp ev) (e_reason ev) (numOf (e_penalty ev))]"
  using assms
  by (auto simp: handleLiquidation_def handleOrderFilled_def numOf_def coalesce_def Let_def
      algebra_simps)

text \<open>
  Claim C3. When the loop takes a liquidated event \<open>ev\<close> from the head of the queue, with
  \<open>rest\<close> pending behind it and a position of quantity \<open>q\<close>: the event is processed
  without error and the run is marked liquidated; an open position is closed (quantity
  and average price 0) by an order-filled entry of the opposite side, for \<open>\<bar>q\<bar>\<close>, at
  the liquidation price (the event's price, else the last price, else the average
  price), which adds \<open>q \<times> liqPrice\<close> to the cash; the penalty's absolute value is taken
  from the cash and logged; and the loop stops there, with this one dispatch, whatever
  \<open>rest\<close> holds and however many iterations are allowed.
\<close>

theorem liquidation_is_terminal:
  fixes en :: "('s, 'x) engine"
  assumes "etype ev = Liquidated"
    and "eventQueue en = ev # rest"
    and "q = qty (position (state en))"
    and "liqPrice = orElse (coalesce (e_price ev) (lastPrice (state en)))
                        (avgPrice (position (state en)))"
  shows "\<exists>en'. processEvent c ev (en\<lparr>eventQueue := rest\<rparr>) = Inr en'
     \<and> run_loop (Suc n) c en = ([(ev, rest)], Some (Inr en'))
     \<and> liquidated (state en')
     \<and> position (state en') = (if q \<noteq> 0 then \<lparr>qty = 0, avgPrice = 0\<rparr> else position (state en))
     \<and> cash (state en') = cash (state en) + q * liqPrice - \<bar>numOf (e_penalty ev)\<bar>
     \<and> tradeLogs en' = tradeLogs en @
          (if q = 0 then []
           else [Log_order_filled (timestamp ev)
                   (Some (case e_order_id ev of Some i \<Rightarrow> i | None \<Rightarrow> Liq_id (timestamp ev)))
                   (Some (if q > 0 then ''sell'' else ''buy'')) (Some \<bar>q\<bar>) (Some liqPrice)
                   (cash (state en) + q * liqPrice) \<lparr>qty = 0, avgPrice = 0\<rparr>]) @
          [Log_liquidated (timestamp ev) (e_reason ev) (numOf (e_penalty ev))]"
proof -
  let ?e0 = "en\<lparr>eventQueue := rest\<rparr>"
  let ?e' = "updateEquity (timestamp ev) (handleLiquidation ev ?e0)"
  have p: "processEvent c ev ?e0 = Inr ?e'"
    using assms(1) by (simp add: processEvent_def)
  have eff: "liquidated (state ?e')
     \<and> cash (state ?e') = cash (state en) + q * liqPrice - \<bar>numOf (e_penalty ev)\<bar>
     \<and> tradeLogs ?e' = tradeLogs en @
          (if q = 0 then []
           else [Log_order_filled (timestamp ev)
                   (Some (case e_order_id ev of Some i \<Rightarrow> i | None \<Rightarrow> Liq_id (timestamp ev)))
                   (Some (if q > 0 then ''sell'' else ''buy'')) (Some \<bar>q\<bar>) (Some liqPrice)
                   (cash (state en) + q * liqPrice) \<lparr>qty = 0, avgPrice = 0\<rparr>]) @
          [Log_liquidated (timestamp ev) (e_reason ev) (numOf (e_penalty ev))]"
    using handleLiquidation_effect [of liqPrice ev ?e0 q] assms(3,4) by simp
  have pos: "position (state ?e')
             = (if q \<noteq> 0 then \<lparr>qty = 0, avgPrice = 0\<rparr> else position (state en))"
    using assms(3) by (simp add: handleLiquidation_position)
  have "run_loop (Suc n) c en = ([(ev, rest)], Some (Inr ?e'))"
    using assms(2) p eff by (subst run_loop.simps) simp
  with p eff pos show ?thesis by blast
qed

text \<open>
  A long position of 1 bought at 100, cash 900, and a liquidation at 90 with a penalty
  of 5 ahead of a candle: the position is sold at 90, the cash is 900 + 90 - 5, and the
  candle is never dispatched.
\<close>

lemma liquidation_test_queue:
  "eventQueue liquidation_test_engine
   = [liquidation_event\<lparr>priority := 80, seq := 0\<rparr>,
      (candle_event 5 95)\<lparr>priority := 10, seq := 1\<rparr>]"
  by (simp add: engine_defs Let_def)

theorem liquidation_is_terminal_witness:
  "map (\<lambda>(ev, pending). (etype ev, map etype pending))
     (fst (run_loop 5 test_collaborators liquidation_test_engine)) = [(Liquidated, [Candle])]
   \<and> (case snd (run_loop 5 test_collaborators liquidation_test_engine) of
        Some (Inr en') \<Rightarrow>
          liquidated (state en') \<and> position (state en') = \<lparr>qty = 0, avgPrice = 0\<rparr>
          \<and> cash (state en') = 985
          \<and> tradeLogs en' =
              [Log_order_filled 4 (Some (Liq_id 4)) (Some ''sell'') (Some 1) (Some 90) 990
                 \<lparr>qty = 0, avgPrice = 0\<rparr>,
               Log_liquidated 4 (Some ''maintenance_margin_breach'') 5]
      | _ \<Rightarrow> False)"
proof -
  let ?ev = "liquidation_event\<lparr>priority := 80, seq := 0\<rparr>"
  let ?rest = "[(candle_event 5 95)\<lparr>priority := 10, seq := 1\<rparr>]"
  have ty: "etype ?ev = Liquidated"
    by (simp add: liquidation_event_def new_event_def)
  have q: "1 = qty (position (state liquidation_test_engine))"
    by (simp add: liquidation_test_engine_def long_one_state_def)
  have lp: "90 = orElse (coalesce (e_price ?ev) (lastPrice (state liquidation_test_engine)))
                   (avgPrice (position (state liquidation_test_engine)))"
    by (simp add: liquidation_event_def new_event_def coalesce_def orElse_def)
  from liquidation_is_terminal [OF ty liquidation_test_queue q lp, of test_collaborators 4]
  obtain en' where
    "run_loop 5 test_collaborators liquidation_test_engine = ([(?ev, ?rest)], Some (Inr en'))"
    "liquidated (state en')" "position (state en') = \<lparr>qty = 0, avgPrice = 0\<rparr>"
    "cash (state en') = cash (state liquidation_test_engine) + 1 * 90 - \<bar>numOf (e_penalty ?ev)\<bar>"
    "tradeLogs en' = tradeLogs liquidation_test_engine @
          [Log_order_filled (timestamp ?ev)
                   (Some (case e_order_id ?ev of Some i \<Rightarrow> i | None \<Rightarrow> Liq_id (timestamp ?ev)))
                   (Some ''sell'') (Some 1) (Some 90)
                   (cash (state liquidation_test_engine) + 1 * 90) \<lparr>qty = 0, avgPrice = 0\<rparr>] @
          [Log_liquidated (timestamp ?ev) (e_reason ?ev) (numOf (e_penalty ?ev))]"
    by (auto simp: numeral_eq_Suc)
  then show ?thesis
    by (simp add: engine_defs Let_def)
qed

subsection \<open>Reproducibility\<close>

text \<open>
  Claim C2. A run is a function of the input events, the run parameters, the seed and
  the collaborators (their handlers and initial private states): two fresh engine
  instances give the same result, trade logs and equity series included. The seed is the
  one of the run parameters when they carry one, whatever seed the instances were made
  with, and the seed of the constructor otherwise.
\<close>

theorem run_deterministic:
  assumes "random_seed p = Some seed \<or> seed1 = seed2"
  shows "run c fuel (new_BacktestEngine seed1 s0 x0) p events
         = run c fuel (new_BacktestEngine seed2 s0 x0) p events"
proof -
  have eq: "start_run (new_BacktestEngine seed1 s0 x0) p events
        = start_run (new_BacktestEngine seed2 s0 x0) p events"
    using assms
    by (auto simp: start_run_def reset_def new_BacktestEngine_def Let_def split: option.splits)
  show ?thesis
    unfolding run_def eq by (rule refl)
qed

text \<open>
  Two instances made with different seeds, run with the seed 42 in the parameters on a
  candle and a buy signal, which the default execution model answers with two draws of
  the random source.
\<close>

theorem run_deterministic_witness:
  "run test_collaborators 10 (test_engine (Some 7)) seeded_params
     [candle_event 1 100, signal_event 1 ''buy'' 1 100]
   = run test_collaborators 10 (test_engine None) seeded_params
     [candle_event 1 100, signal_event 1 ''buy'' 1 100]"
  using run_deterministic
          [where p = seeded_params and seed = 42 and ?seed1.0 = "Some 7" and ?seed2.0 = None
             and c = test_collaborators and fuel = 10 and ?s0.0 = "()" and ?x0.0 = "0::nat"
             and events = "[candle_event 1 100, signal_event 1 ''buy'' 1 100]"]
  by (simp add: seeded_params_def test_engine_def)

subsection \<open>Funding\<close>

lemma assign_seq_single:
  "assign_seq n [e] = ([(normalizeEvent e)\<lparr>seq := n\<rparr>], n + 1)"
  by simp







end
